theory Spec2Isabelle
  imports Main "HOL-Library.Word" "HOL-Library.Sublist"
begin

unbundle bit_operations_syntax

section \<open>Python values used by server/main.py\<close>

text \<open>
  A Python \<open>str\<close> is a sequence of Unicode code points: \<open>len\<close> and slicing count code
  points, not bytes. A string is therefore a list of code points, and every non-ASCII
  literal of the source is written as the list of its code points (in hexadecimal), next
  to the source line it comes from.
\<close>

type_synonym pystr = "nat list"

definition ascii :: "string \<Rightarrow> pystr" where
  "ascii s = map of_char s"

text \<open>
  The values \<open>json.loads\<close> produces, which are also the values of a
  \<open>Dict[str, Any]\<close> of a request body. A float is its IEEE-754 binary64 bit pattern.
  A dict is the list of its items.
\<close>

datatype json =
    JNull
  | JBool bool
  | JInt int
  | JFloat "64 word"
  | JStr pystr
  | JArr "json list"
  | JObj "(pystr \<times> json) list"

type_synonym pydict = "(pystr \<times> json) list"

text \<open>Python truth value (\<open>bool(v)\<close>): zero of either sign is false, NaN is true.\<close>

fun truthy :: "json \<Rightarrow> bool" where
  "truthy JNull = False"
| "truthy (JBool b) = b"
| "truthy (JInt i) = (i \<noteq> 0)"
| "truthy (JFloat w) = (w AND 0x7FFFFFFFFFFFFFFF \<noteq> 0)"
| "truthy (JStr s) = (s \<noteq> [])"
| "truthy (JArr xs) = (xs \<noteq> [])"
| "truthy (JObj kvs) = (kvs \<noteq> [])"

text \<open>\<open>a or b\<close> on values, and on an \<open>Optional[str]\<close>.\<close>

definition py_or :: "json \<Rightarrow> json \<Rightarrow> json" where
  "py_or a b = (if truthy a then a else b)"

definition str_or :: "pystr option \<Rightarrow> pystr \<Rightarrow> pystr" where
  "str_or a b = (case a of None \<Rightarrow> b | Some s \<Rightarrow> if s = [] then b else s)"

text \<open>\<open>d.get(k)\<close> (\<open>None\<close> when the key is absent) and \<open>d.get(k, dflt)\<close>.\<close>

definition dict_get :: "pydict \<Rightarrow> pystr \<Rightarrow> json" where
  "dict_get d k = (case map_of d k of None \<Rightarrow> JNull | Some v \<Rightarrow> v)"

definition dict_get_default :: "pydict \<Rightarrow> pystr \<Rightarrow> json \<Rightarrow> json" where
  "dict_get_default d k dflt = (case map_of d k of None \<Rightarrow> dflt | Some v \<Rightarrow> v)"

text \<open>Slices: \<open>xs[:k]\<close> (a negative \<open>k\<close> counts from the end) and \<open>xs[-k:]\<close> for \<open>k > 0\<close>.\<close>

definition slice_to :: "int \<Rightarrow> 'a list \<Rightarrow> 'a list" where
  "slice_to k xs = (if 0 \<le> k then take (nat k) xs else take (length xs - nat (- k)) xs)"

definition last_n :: "nat \<Rightarrow> 'a list \<Rightarrow> 'a list" where
  "last_n k xs = drop (length xs - k) xs"

text \<open>\<open>sep.join(xs)\<close>.\<close>

fun join :: "pystr \<Rightarrow> pystr list \<Rightarrow> pystr" where
  "join sep [] = []"
| "join sep [x] = x"
| "join sep (x # y # ys) = x @ sep @ join sep (y # ys)"

text \<open>\<open>str(i)\<close> for an int: decimal digits, with a minus sign when negative.\<close>

fun digits :: "nat \<Rightarrow> pystr" where
  "digits k = (if k < 10 then [0x30 + k] else digits (k div 10) @ [0x30 + k mod 10])"

definition str_int :: "int \<Rightarrow> pystr" where
  "str_int i = (if i < 0 then 0x2D # digits (nat (- i)) else digits (nat i))"

text \<open>
  The parts of the Python runtime that the handlers call and that are not modelled
  symbol by symbol are parameters: \<open>json.loads\<close> (\<open>None\<close> when it raises
  \<open>JSONDecodeError\<close>) and the \<open>repr\<close> of floats, lists and dicts, which is what
  \<open>str\<close> returns for them.
\<close>

record pylib =
  json_loads :: "pystr \<Rightarrow> json option"
  py_repr :: "json \<Rightarrow> pystr"

text \<open>\<open>str(v)\<close>; an f-string field \<open>{v}\<close> formats \<open>v\<close> the same way.\<close>

definition py_str :: "pylib \<Rightarrow> json \<Rightarrow> pystr" where
  "py_str rt v =
     (case v of
        JStr s \<Rightarrow> s
      | JNull \<Rightarrow> ascii ''None''
      | JBool b \<Rightarrow> (if b then ascii ''True'' else ascii ''False'')
      | JInt i \<Rightarrow> str_int i
      | JFloat w \<Rightarrow> py_repr rt v
      | JArr xs \<Rightarrow> py_repr rt v
      | JObj kvs \<Rightarrow> py_repr rt v)"

text \<open>
  \<open>s.strip()\<close>: removes leading and trailing characters for which \<open>str.isspace\<close>
  holds.
\<close>

definition isspace :: "nat \<Rightarrow> bool" where
  "isspace c =
     ((0x9 \<le> c \<and> c \<le> 0xD) \<or> (0x1C \<le> c \<and> c \<le> 0x20) \<or> c = 0x85 \<or> c = 0xA0
      \<or> c = 0x1680 \<or> (0x2000 \<le> c \<and> c \<le> 0x200A) \<or> c = 0x2028 \<or> c = 0x2029
      \<or> c = 0x202F \<or> c = 0x205F \<or> c = 0x3000)"

definition strip :: "pystr \<Rightarrow> pystr" where
  "strip s = rev (dropWhile isspace (rev (dropWhile isspace s)))"

section \<open>Exceptions, the provider client and the process environment\<close>

text \<open>
  The exceptions (all subclasses of \<open>Exception\<close>) that the bodies of the handlers'
  \<open>try\<close> blocks can raise. \<open>ProviderError\<close> stands for whatever the call
  \<open>client.chat.completions.create\<close> raises.
\<close>

datatype exn =
    ProviderError pystr
  | IndexError
  | AttributeError
  | JSONDecodeError
  | ValueError pystr

text \<open>
  The keyword arguments of \<open>client.chat.completions.create\<close>; the two messages are
  the system and the user message. The temperature is a binary64 bit pattern.
\<close>

record create_args =
  model :: pystr
  system_content :: pystr
  user_content :: pystr
  json_object :: bool
  temperature :: "64 word"
  max_tokens :: nat

text \<open>
  A completion, as far as the handlers read it: \<open>resp.choices[i].message.content\<close>,
  an \<open>Optional[str]\<close> per choice.
\<close>

datatype completion = Completion (choices: "pystr option list")

type_synonym client = "create_args \<Rightarrow> exn + completion"

text \<open>
  The process environment: the two environment variables read by the module, and the
  imported \<open>OpenAI\<close> class (\<open>None\<close> when the import failed), given as the client
  that \<open>OpenAI()\<close> constructs; the construction is taken to succeed when the key is
  set.
\<close>

record environment =
  OPENAI_API_KEY :: "pystr option"
  MODEL :: "pystr option"
  OpenAI :: "client option"

definition get_openai_client :: "environment \<Rightarrow> client option" where
  "get_openai_client env =
     (let api_key = OPENAI_API_KEY env in
      if api_key = None \<or> api_key = Some [] \<or> OpenAI env = None then None
      else OpenAI env)"

definition MODEL_DEFAULT :: "environment \<Rightarrow> pystr" where
  "MODEL_DEFAULT env = (case MODEL env of None \<Rightarrow> ascii ''gpt-4o-mini'' | Some m \<Rightarrow> m)"

text \<open>\<open>try: body except Exception: handler\<close>.\<close>

definition try_except :: "exn + 'a \<Rightarrow> (exn \<Rightarrow> exn + 'a) \<Rightarrow> exn + 'a" where
  "try_except body handler = (case body of Inl e \<Rightarrow> handler e | Inr v \<Rightarrow> Inr v)"

section \<open>Request and response models\<close>

record ChatMessage =
  role :: pystr
  content :: pystr

record SuggestionRequest =
  sug_chat :: "ChatMessage list"
  sug_world_events :: "pydict list"
  sug_n :: int

record SuggestionResponse =
  suggestions :: "pystr list"

record ChatRequest =
  chat_chat :: "ChatMessage list"
  chat_world_events :: "pydict list"
  player_message :: "pystr option"

record ChatResponse =
  reply :: pystr

record VoiceRequest =
  transcript :: pystr
  voice_chat :: "ChatMessage list"
  voice_world_events :: "pydict list"

record VoiceResponse =
  world_event :: pydict

text \<open>
  What the framework does with the outcome of a handler. An exception that leaves
  the handler is answered with status 500. A returned response model is written as
  JSON and encoded as UTF-8 after the handler has returned, outside every try block
  of the module; that fails, and the answer is again a 500, when a string holds a
  surrogate code point or a float is not finite. Otherwise the status is 200.
  Validation of the request body is not modelled: a request is a value of its model
  type.
\<close>

definition utf8_encodable :: "pystr \<Rightarrow> bool" where
  "utf8_encodable s = list_all (\<lambda>c. c < 0xD800 \<or> 0xDFFF < c) s"

fun json_encodable :: "json \<Rightarrow> bool" where
  "json_encodable JNull = True"
| "json_encodable (JBool b) = True"
| "json_encodable (JInt i) = True"
| "json_encodable (JFloat w) = (w AND 0x7FF0000000000000 \<noteq> 0x7FF0000000000000)"
| "json_encodable (JStr s) = utf8_encodable s"
| "json_encodable (JArr xs) = list_all json_encodable xs"
| "json_encodable (JObj kvs) = list_all (\<lambda>kv. utf8_encodable (fst kv) \<and> json_encodable (snd kv)) kvs"

definition suggestions_encodable :: "SuggestionResponse \<Rightarrow> bool" where
  "suggestions_encodable r = list_all utf8_encodable (suggestions r)"

definition chat_encodable :: "ChatResponse \<Rightarrow> bool" where
  "chat_encodable r = utf8_encodable (reply r)"

definition voice_encodable :: "VoiceResponse \<Rightarrow> bool" where
  "voice_encodable r = json_encodable (JObj (world_event r))"

definition http_status :: "('a \<Rightarrow> bool) \<Rightarrow> exn + 'a \<Rightarrow> nat" where
  "http_status encodable r =
     (case r of Inl e \<Rightarrow> 500 | Inr v \<Rightarrow> if encodable v then 200 else 500)"

section \<open>The canned pool and the world-event context\<close>

text \<open>The six strings of \<open>base\<close>, lines 89 to 94 of server/main.py.\<close>

definition base :: "pystr list" where
  "base =
     [[0x7B49, 0x7B49, 0xFF0C, 0x5148, 0x522B, 0x8BF4, 0x8BDD, 0xFF0C, 0x542C, 0x2014,
       0x2014, 0x4F60, 0x542C, 0x89C1, 0x4E86, 0x5417, 0xFF1F],
      [0x5411, 0x4E1C, 0x8F6C, 0x79FB, 0x961F, 0x4F0D, 0xFF0C, 0x8EB2, 0x5F00, 0x98CE,
       0x66B4, 0x773C, 0x3002],
      [0x628A, 0x6D88, 0x606F, 0x538B, 0x4E0B, 0x53BB, 0xFF0C, 0x514D, 0x5F97, 0x5F15,
       0x8D77, 0x6050, 0x614C, 0x3002],
      [0x4E5F, 0x8BB8, 0x6211, 0x4EEC, 0x4F4E, 0x4F30, 0x4E86, 0x5929, 0x7A7A, 0x7684,
       0x5F71, 0x5B50, 0x2026],
      [0x522B, 0x62AC, 0x5934, 0xFF0C, 0x98CE, 0x4ECE, 0x5317, 0x8FB9, 0x53D8, 0x51B7,
       0x4E86, 0x3002],
      [0x5618, 0xFF0C, 0x55E1, 0x9E23, 0x5728, 0x5899, 0x540E, 0x56DE, 0x54CD, 0x3002]]"

definition fallback_suggestions :: "int \<Rightarrow> pystr list" where
  "fallback_suggestions n = slice_to (max 1 (min n (int (length base)))) base"

text \<open>Line 101: the marker returned for an empty list of world events.\<close>

definition no_world_events :: pystr where
  "no_world_events = [0x28, 0x65E0, 0x4E16, 0x754C, 0x4E8B, 0x4EF6, 0x29]"

text \<open>Line 102: the separator, a middle dot between two spaces, and one rendered event.\<close>

definition dot_sep :: pystr where
  "dot_sep = [0x20, 0xB7, 0x20]"

definition event_line :: "pylib \<Rightarrow> pydict \<Rightarrow> pystr" where
  "event_line rt ev =
     ascii ''- '' @ py_str rt (dict_get_default ev (ascii ''t'') (JStr (ascii ''?'')))
     @ dot_sep @ py_str rt (dict_get_default ev (ascii ''title'') (JStr []))
     @ dot_sep @ py_str rt (dict_get_default ev (ascii ''desc'') (JStr []))"

definition world_context_lines :: "pylib \<Rightarrow> pydict list \<Rightarrow> pystr list" where
  "world_context_lines rt world_events = map (event_line rt) (slice_to 8 world_events)"

definition build_world_context :: "pylib \<Rightarrow> pydict list \<Rightarrow> pystr" where
  "build_world_context rt world_events =
     (if world_events = [] then no_world_events
      else join [0xA] (world_context_lines rt world_events))"

text \<open>The rendering of the chat tail, shared by two handlers: the last \<open>k\<close> turns.\<close>

definition chat_tail :: "nat \<Rightarrow> ChatMessage list \<Rightarrow> pystr" where
  "chat_tail k chat = join [0xA] (map (\<lambda>m. role m @ ascii '': '' @ content m) (last_n k chat))"

section \<open>Steps of the try blocks\<close>

definition bind_exn :: "exn + 'a \<Rightarrow> ('a \<Rightarrow> exn + 'b) \<Rightarrow> exn + 'b" where
  "bind_exn m f = (case m of Inl e \<Rightarrow> Inl e | Inr v \<Rightarrow> f v)"

text \<open>\<open>resp.choices[0].message.content\<close>: \<open>IndexError\<close> on an empty list of choices.\<close>

definition first_content :: "completion \<Rightarrow> exn + pystr option" where
  "first_content resp = (case choices resp of [] \<Rightarrow> Inl IndexError | c # cs \<Rightarrow> Inr c)"

definition loads :: "pylib \<Rightarrow> pystr \<Rightarrow> exn + json" where
  "loads rt s = (case json_loads rt s of None \<Rightarrow> Inl JSONDecodeError | Some v \<Rightarrow> Inr v)"

text \<open>
  \<open>data.get\<close>: the attribute lookup raises \<open>AttributeError\<close> on every parsed value
  other than a dict (\<open>None\<close>, bool, int, float, str and list have no \<open>get\<close>).
\<close>

definition as_dict :: "json \<Rightarrow> exn + pydict" where
  "as_dict data = (case data of JObj d \<Rightarrow> Inr d | _ \<Rightarrow> Inl AttributeError)"

section \<open>POST /api/suggestions\<close>

text \<open>Lines 123 and 124: the system message.\<close>

definition suggestions_system :: pystr where
  "suggestions_system =
     [0x4F60, 0x662F, 0x63D2, 0x8BDD, 0x5EFA, 0x8BAE, 0x751F, 0x6210, 0x5668, 0x3002,
      0x6839, 0x636E, 0x4E16, 0x754C, 0x4E8B, 0x4EF6, 0x4E0E, 0x6700, 0x8FD1, 0x5BF9,
      0x8BDD, 0xFF0C, 0x7ED9, 0x51FA, 0x77ED, 0x5C0F, 0x3001, 0x6709, 0x6697, 0x793A,
      0x6027, 0x3001, 0x53EF, 0x70B9, 0x51FB, 0x7684, 0x53F0, 0x8BCD, 0x5EFA, 0x8BAE,
      0x3002, 0x8981, 0x6C42, 0xFF1A, 0x6BCF, 0x6761, 0x4E0D, 0x8D85, 0x8FC7, 0x31,
      0x36, 0x5B57, 0xFF0C, 0x8BED, 0x4E49, 0x591A, 0x6837, 0xFF0C, 0x6709, 0x884C,
      0x52A8, 0x2F, 0x60C5, 0x7EEA, 0x2F, 0x4FE1, 0x606F, 0x5DEE, 0x3002, 0x53EA,
      0x8FD4, 0x56DE, 0x20, 0x4A, 0x53, 0x4F, 0x4E, 0x20, 0x5BF9, 0x8C61, 0xFF0C,
      0x952E, 0x4E3A, 0x20, 0x73, 0x75, 0x67, 0x67, 0x65, 0x73, 0x74, 0x69, 0x6F,
      0x6E, 0x73, 0x3002]"

text \<open>Lines 127 and 128: the user message, an f-string.\<close>

definition suggestions_user :: "pystr \<Rightarrow> pystr \<Rightarrow> int \<Rightarrow> pystr" where
  "suggestions_user world_ctx tail n =
     [0x4E16, 0x754C, 0x4E8B, 0x4EF6, 0x3A, 0xA] @ world_ctx
     @ [0xA, 0xA, 0x6700, 0x8FD1, 0x5BF9, 0x8BDD, 0x3A, 0xA] @ tail
     @ [0xA, 0xA, 0x8BF7, 0x751F, 0x6210, 0x20] @ str_int n
     @ [0x20, 0x6761, 0x4E2D, 0x6587, 0x63D2, 0x8BDD, 0x5EFA, 0x8BAE, 0x3002]"

text \<open>
  The body of the try block: lines 132 to 140 (the call, and \<open>data\<close> parsed from the
  content of the first choice), then lines 141 to 145.
\<close>

definition suggestions_data ::
  "pylib \<Rightarrow> environment \<Rightarrow> client \<Rightarrow> pystr \<Rightarrow> pystr \<Rightarrow> exn + json" where
  "suggestions_data rt env cl system user =
     bind_exn (cl \<lparr>model = MODEL_DEFAULT env, system_content = system, user_content = user,
                   json_object = True, temperature = 0x3FE6666666666666, max_tokens = 200\<rparr>)
       (\<lambda>resp. bind_exn (first_content resp)
       (\<lambda>c. loads rt (str_or c (ascii ''{}''))))"

definition suggestions_try ::
  "pylib \<Rightarrow> environment \<Rightarrow> client \<Rightarrow> pystr \<Rightarrow> pystr \<Rightarrow> int \<Rightarrow> exn + SuggestionResponse" where
  "suggestions_try rt env cl system user n =
     bind_exn (suggestions_data rt env cl system user)
       (\<lambda>data. bind_exn (as_dict data)
       (\<lambda>d. case dict_get d (ascii ''suggestions'') of
               JArr xs \<Rightarrow>
                 Inr \<lparr>suggestions = slice_to n (map (\<lambda>s. slice_to 30 (py_str rt s)) xs)\<rparr>
             | _ \<Rightarrow> Inl (ValueError (ascii ''bad suggestions''))))"

text \<open>The handler once the client and the count are fixed (lines 116 to 148).\<close>

definition suggestions_body ::
  "pylib \<Rightarrow> environment \<Rightarrow> client option \<Rightarrow> SuggestionRequest \<Rightarrow> int \<Rightarrow> exn + SuggestionResponse" where
  "suggestions_body rt env cl_opt req n =
     (case cl_opt of
        None \<Rightarrow> Inr \<lparr>suggestions = fallback_suggestions n\<rparr>
      | Some cl \<Rightarrow>
          (let world_ctx = build_world_context rt (sug_world_events req);
               tail = chat_tail 8 (sug_chat req);
               system = suggestions_system;
               user = suggestions_user world_ctx tail n
           in try_except (suggestions_try rt env cl system user n)
                (\<lambda>e. Inr \<lparr>suggestions = fallback_suggestions n\<rparr>)))"

definition api_suggestions ::
  "pylib \<Rightarrow> environment \<Rightarrow> SuggestionRequest \<Rightarrow> exn + SuggestionResponse" where
  "api_suggestions rt env req =
     (let cl_opt = get_openai_client env;
          n = max 1 (min 8 (sug_n req))
      in suggestions_body rt env cl_opt req n)"

section \<open>POST /api/chat\<close>

text \<open>Line 158, line 160 (the two literal parts of the f-string) and line 190.\<close>

definition chat_generic_reply :: pystr where
  "chat_generic_reply =
     [0x6211, 0x542C, 0x89C1, 0x4E86, 0xFF0C, 0x4F46, 0x98CE, 0x66B4, 0x4E0D, 0x4F1A,
      0x7B49, 0x4EBA, 0x3002]"

definition chat_template_prefix :: pystr where
  "chat_template_prefix = [0x660E, 0x767D, 0xFF1A]"

definition chat_template_suffix :: pystr where
  "chat_template_suffix = [0x3002, 0x4F46, 0x547D, 0x8FD0, 0x4ECD, 0x5728, 0x63A8, 0x8FDB, 0x3002]"

definition chat_failure_reply :: pystr where
  "chat_failure_reply =
     [0x5148, 0x7A33, 0x4F4F, 0x9635, 0x811A, 0xFF0C, 0x6309, 0x65E2, 0x5B9A, 0x8DEF,
      0x7EBF, 0x8D70, 0x3002]"

text \<open>Lines 167 to 170: the system message.\<close>

definition chat_system :: pystr where
  "chat_system =
     [0x4F60, 0x662F, 0x7FA4, 0x804A, 0x4E2D, 0x7684, 0x20, 0x4E, 0x50, 0x43, 0x20,
      0x56DE, 0x590D, 0x751F, 0x6210, 0x5668, 0x3002, 0x8981, 0x6C42, 0xFF1A, 0xA,
      0x2D, 0x20, 0x8BED, 0x6C14, 0x81EA, 0x7136, 0x7B80, 0x77ED, 0xFF08, 0x3C, 0x3D,
      0x20, 0x33, 0x30, 0x20, 0x5B57, 0xFF09, 0xFF0C, 0x4E0D, 0x5267, 0x900F, 0xFF0C,
      0x4E0D, 0x5F3A, 0x8BBE, 0x5B9A, 0x3002, 0xA, 0x2D, 0x20, 0x4F18, 0x5148, 0x53C2,
      0x8003, 0x5DE6, 0x680F, 0x201C, 0x4E16, 0x754C, 0x4E8B, 0x4EF6, 0x2F, 0x547D,
      0x8FD0, 0x4E3B, 0x7EBF, 0x201D, 0xFF0C, 0x4FDD, 0x6301, 0x4E00, 0x81F4, 0x6027,
      0x3002, 0xA, 0x2D, 0x20, 0x82E5, 0x73A9, 0x5BB6, 0x63D2, 0x8BDD, 0x504F, 0x79BB,
      0x547D, 0x8FD0, 0xFF0C, 0x4E5F, 0x8981, 0x6E29, 0x548C, 0x63A5, 0x4F4F, 0x5E76,
      0x6697, 0x793A, 0x7EA0, 0x504F, 0x3002]"

text \<open>Lines 174 to 177: the user message.\<close>

definition chat_user :: "pystr \<Rightarrow> pystr \<Rightarrow> pystr \<Rightarrow> pystr" where
  "chat_user world_ctx tail player_msg =
     [0x4E16, 0x754C, 0x4E8B, 0x4EF6, 0xFF08, 0x547D, 0x8FD0, 0x4E3B, 0x7EBF, 0x6458,
      0x8981, 0xFF09, 0xFF1A, 0xA] @ world_ctx
     @ [0xA, 0xA, 0x6700, 0x8FD1, 0x5BF9, 0x8BDD, 0xFF08, 0x542B, 0x73A9, 0x5BB6, 0xFF09,
        0xFF1A, 0xA] @ tail
     @ [0xA, 0xA, 0x73A9, 0x5BB6, 0x6700, 0x65B0, 0x53D1, 0x8A00, 0xFF1A] @ player_msg
     @ [0xA, 0x8BF7, 0x7ED9, 0x51FA, 0x20, 0x4E, 0x50, 0x43, 0x20, 0x7684, 0x4E0B, 0x4E00,
        0x53E5, 0x7B80, 0x77ED, 0x4E2D, 0x6587, 0x56DE, 0x590D, 0x3002]"

text \<open>
  Lines 181 to 188: the body of the try block. \<open>content.strip()\<close> raises
  \<open>AttributeError\<close> when the content is \<open>None\<close>.
\<close>

definition chat_try ::
  "environment \<Rightarrow> client \<Rightarrow> pystr \<Rightarrow> pystr \<Rightarrow> exn + ChatResponse" where
  "chat_try env cl system user =
     bind_exn (cl \<lparr>model = MODEL_DEFAULT env, system_content = system, user_content = user,
                   json_object = False, temperature = 0x3FE3333333333333, max_tokens = 80\<rparr>)
       (\<lambda>resp. bind_exn (first_content resp)
       (\<lambda>c. case c of
               None \<Rightarrow> Inl AttributeError
             | Some s \<Rightarrow> Inr \<lparr>reply = strip s\<rparr>))"

definition api_chat :: "pylib \<Rightarrow> environment \<Rightarrow> ChatRequest \<Rightarrow> exn + ChatResponse" where
  "api_chat rt env req =
     (let cl_opt = get_openai_client env;
          player_msg = str_or (player_message req) []
      in case cl_opt of
           None \<Rightarrow>
             (let reply0 = chat_generic_reply;
                  reply1 = (if player_msg \<noteq> []
                            then chat_template_prefix @ player_msg @ chat_template_suffix
                            else reply0)
              in Inr \<lparr>reply = reply1\<rparr>)
         | Some cl \<Rightarrow>
             (let world_ctx = build_world_context rt (chat_world_events req);
                  tail = chat_tail 10 (chat_chat req);
                  system = chat_system;
                  user = chat_user world_ctx tail player_msg
              in try_except (chat_try env cl system user)
                   (\<lambda>e. Inr \<lparr>reply = chat_failure_reply\<rparr>)))"

section \<open>POST /api/voice\<close>

text \<open>
  The literals of lines 199 to 201 (no client), 225 to 227 (defaults of the fields)
  and 231 to 233 (failure). The literal of \<open>t\<close> is written three times in the source,
  at lines 199, 225 and 231: \<open>canned_moment\<close>, \<open>this_moment\<close> and \<open>failure_moment\<close>.
\<close>

definition canned_moment :: pystr where
  "canned_moment = [0x6B64, 0x523B]"

definition this_moment :: pystr where
  "this_moment = [0x6B64, 0x523B]"

definition failure_moment :: pystr where
  "failure_moment = [0x6B64, 0x523B]"

definition canned_title :: pystr where
  "canned_title = [0x4F4E, 0x8BED, 0x5982, 0x6F6E]"

definition canned_desc :: pystr where
  "canned_desc =
     [0x77ED, 0x6682, 0x7684, 0x55E1, 0x9E23, 0x538B, 0x8FC7, 0x4E86, 0x4E89, 0x6267,
      0xFF0C, 0x4F17, 0x4EBA, 0x6C89, 0x9ED8, 0x7247, 0x523B, 0x3002]"

definition default_title :: pystr where
  "default_title = [0x5FAE, 0x5F31, 0x56DE, 0x58F0]"

definition default_desc :: pystr where
  "default_desc =
     [0x7A7A, 0x6C14, 0x91CC, 0x6D6E, 0x8D77, 0x4E00, 0x9635, 0x7EC6, 0x54CD, 0xFF0C,
      0x53C8, 0x8FC5, 0x901F, 0x5F52, 0x4E8E, 0x5E73, 0x9759, 0x3002]"

definition failure_title :: pystr where
  "failure_title = [0x98CE, 0x505C, 0x4E00, 0x77AC]"

definition failure_desc :: pystr where
  "failure_desc =
     [0x50CF, 0x662F, 0x88AB, 0x8C01, 0x6309, 0x4E0B, 0x4E86, 0x6682, 0x505C, 0x952E,
      0xFF0C, 0x6240, 0x6709, 0x4EBA, 0x90FD, 0x7A0D, 0x7A0D, 0x5C4F, 0x4F4F, 0x4E86,
      0x6C14, 0x3002]"

text \<open>The dict literal \<open>{"t": t, "title": title, "desc": desc}\<close>.\<close>

definition event_triple :: "pystr \<Rightarrow> pystr \<Rightarrow> pystr \<Rightarrow> pydict" where
  "event_triple t title desc =
     [(ascii ''t'', JStr t), (ascii ''title'', JStr title), (ascii ''desc'', JStr desc)]"

text \<open>Lines 207 and 208: the system message; lines 211 to 213: the user message.\<close>

definition voice_system :: pystr where
  "voice_system =
     [0x4F60, 0x662F, 0x4E8B, 0x4EF6, 0x5FAE, 0x6270, 0x751F, 0x6210, 0x5668, 0x3002,
      0x8F93, 0x5165, 0x4E3A, 0x73A9, 0x5BB6, 0x7684, 0x8BED, 0x97F3, 0x8F6C, 0x5199,
      0xFF08, 0x6587, 0x672C, 0xFF09, 0xFF0C, 0x8F93, 0x51FA, 0x4E3A, 0x4E00, 0x4E2A,
      0x5FAE, 0x5C0F, 0x4E16, 0x754C, 0x4E8B, 0x4EF6, 0x3002, 0x8981, 0x6C42, 0x8F93,
      0x51FA, 0x20, 0x4A, 0x53, 0x4F, 0x4E, 0xFF1A, 0x7B, 0x74, 0x2C, 0x74, 0x69, 0x74,
      0x6C, 0x65, 0x2C, 0x64, 0x65, 0x73, 0x63, 0x7D, 0x3002, 0x4E8B, 0x4EF6, 0x9700,
      0x7EC6, 0x5FAE, 0x4F46, 0x53EF, 0x611F, 0xFF08, 0x5982, 0x4EBA, 0x7FA4, 0x60C5,
      0x7EEA, 0x3001, 0x73AF, 0x5883, 0x58F0, 0x54CD, 0x3001, 0x89C6, 0x7EBF, 0x53D8,
      0x5316, 0xFF09, 0x3002]"

definition voice_user :: "pystr \<Rightarrow> pystr \<Rightarrow> pystr" where
  "voice_user world_ctx tr =
     [0x5DF2, 0x77E5, 0x4E16, 0x754C, 0x4E8B, 0x4EF6, 0xFF1A, 0xA] @ world_ctx
     @ [0xA, 0xA, 0x73A9, 0x5BB6, 0x8BED, 0x97F3, 0x8F6C, 0x5199, 0xFF1A] @ tr
     @ [0xA, 0x8BF7, 0x751F, 0x6210, 0x4E00, 0x4E2A, 0x65B0, 0x7684, 0x7EC6, 0x5FAE, 0x4E16,
        0x754C, 0x4E8B, 0x4EF6, 0x3002]"

text \<open>Lines 225 to 228: the three fields read from the parsed dict.\<close>

definition voice_fields :: "pylib \<Rightarrow> pydict \<Rightarrow> VoiceResponse" where
  "voice_fields rt d =
     (let t = py_str rt (py_or (dict_get d (ascii ''t'')) (JStr this_moment));
          title = py_str rt (py_or (dict_get d (ascii ''title'')) (JStr default_title));
          desc = py_str rt (py_or (dict_get d (ascii ''desc'')) (JStr default_desc))
      in \<lparr>world_event = event_triple t title desc\<rparr>)"

text \<open>
  The body of the try block: lines 217 to 224 (the call, and \<open>data\<close> parsed from the
  content of the first choice), then lines 225 to 228.
\<close>

definition voice_data ::
  "pylib \<Rightarrow> environment \<Rightarrow> client \<Rightarrow> pystr \<Rightarrow> pystr \<Rightarrow> exn + json" where
  "voice_data rt env cl system user =
     bind_exn (cl \<lparr>model = MODEL_DEFAULT env, system_content = system, user_content = user,
                   json_object = True, temperature = 0x3FE6666666666666, max_tokens = 120\<rparr>)
       (\<lambda>resp. bind_exn (first_content resp)
       (\<lambda>c. loads rt (str_or c (ascii ''{}''))))"

definition voice_try ::
  "pylib \<Rightarrow> environment \<Rightarrow> client \<Rightarrow> pystr \<Rightarrow> pystr \<Rightarrow> exn + VoiceResponse" where
  "voice_try rt env cl system user =
     bind_exn (voice_data rt env cl system user)
       (\<lambda>data. bind_exn (as_dict data)
       (\<lambda>d. Inr (voice_fields rt d)))"

definition api_voice :: "pylib \<Rightarrow> environment \<Rightarrow> VoiceRequest \<Rightarrow> exn + VoiceResponse" where
  "api_voice rt env req =
     (case get_openai_client env of
        None \<Rightarrow> Inr \<lparr>world_event = event_triple canned_moment canned_title canned_desc\<rparr>
      | Some cl \<Rightarrow>
          (let world_ctx = build_world_context rt (voice_world_events req);
               system = voice_system;
               user = voice_user world_ctx (transcript req)
           in try_except (voice_try rt env cl system user)
                (\<lambda>e. Inr \<lparr>world_event = event_triple failure_moment failure_title failure_desc\<rparr>)))"

section \<open>The prompts of a request, and sample inputs\<close>

text \<open>
  The user message each handler builds from its request, named so that statements
  about the provider path can refer to the call a given request makes.
\<close>

definition effective_n :: "SuggestionRequest \<Rightarrow> int" where
  "effective_n req = max 1 (min 8 (sug_n req))"

definition suggestions_prompt :: "pylib \<Rightarrow> SuggestionRequest \<Rightarrow> pystr" where
  "suggestions_prompt rt req =
     suggestions_user (build_world_context rt (sug_world_events req))
       (chat_tail 8 (sug_chat req)) (effective_n req)"

definition chat_prompt :: "pylib \<Rightarrow> ChatRequest \<Rightarrow> pystr" where
  "chat_prompt rt req =
     chat_user (build_world_context rt (chat_world_events req))
       (chat_tail 10 (chat_chat req)) (str_or (player_message req) [])"

definition voice_prompt :: "pylib \<Rightarrow> VoiceRequest \<Rightarrow> pystr" where
  "voice_prompt rt req =
     voice_user (build_world_context rt (voice_world_events req)) (transcript req)"

text \<open>
  Sample inputs. \<open>sample_lib\<close> parses four JSON texts the way \<open>json.loads\<close> does and
  rejects every other text; the clients raise, answer with a list of mixed JSON
  values, answer with an object whose title is empty, answer with an object that has
  all three fields, answer with no content, and answer with text that is not JSON.
\<close>

definition mixed_json_text :: pystr where
  "mixed_json_text =
     ascii ''{'' @ [0x22] @ ascii ''suggestions'' @ [0x22] @ ascii '': [1, null, true, ''
     @ [0x22] @ ascii ''go'' @ [0x22] @ ascii '']}''"

definition empty_title_text :: pystr where
  "empty_title_text =
     ascii ''{'' @ [0x22] @ ascii ''title'' @ [0x22] @ ascii '': '' @ [0x22, 0x22]
     @ ascii '', '' @ [0x22] @ ascii ''desc'' @ [0x22] @ ascii '': 0}''"

definition full_event_text :: pystr where
  "full_event_text =
     ascii ''{'' @ [0x22] @ ascii ''t'' @ [0x22] @ ascii '': '' @ [0x22] @ ascii ''dusk'' @ [0x22]
     @ ascii '', '' @ [0x22] @ ascii ''title'' @ [0x22] @ ascii '': '' @ [0x22] @ ascii ''echo''
     @ [0x22] @ ascii '', '' @ [0x22] @ ascii ''desc'' @ [0x22] @ ascii '': '' @ [0x22]
     @ ascii ''far'' @ [0x22] @ ascii ''}''"

definition sample_lib :: pylib where
  "sample_lib =
     \<lparr>json_loads = (\<lambda>s.
         if s = ascii ''{}'' then Some (JObj [])
         else if s = mixed_json_text
           then Some (JObj [(ascii ''suggestions'',
                             JArr [JInt 1, JNull, JBool True, JStr (ascii ''go'')])])
         else if s = empty_title_text
           then Some (JObj [(ascii ''title'', JStr []), (ascii ''desc'', JInt 0)])
         else if s = full_event_text
           then Some (JObj [(ascii ''t'', JStr (ascii ''dusk'')),
                            (ascii ''title'', JStr (ascii ''echo'')),
                            (ascii ''desc'', JStr (ascii ''far''))])
         else None),
      py_repr = (\<lambda>v. [])\<rparr>"

definition raising_client :: client where
  "raising_client args = Inl (ProviderError (ascii ''timeout''))"

definition mixed_client :: client where
  "mixed_client args = Inr (Completion [Some mixed_json_text])"

definition empty_title_client :: client where
  "empty_title_client args = Inr (Completion [Some empty_title_text])"

definition full_event_client :: client where
  "full_event_client args = Inr (Completion [Some full_event_text])"

definition no_client_env :: environment where
  "no_client_env = \<lparr>OPENAI_API_KEY = None, MODEL = None, OpenAI = Some raising_client\<rparr>"

definition env_with :: "client \<Rightarrow> environment" where
  "env_with cl = \<lparr>OPENAI_API_KEY = Some (ascii ''sk''), MODEL = None, OpenAI = Some cl\<rparr>"

definition suggestion_request :: "int \<Rightarrow> SuggestionRequest" where
  "suggestion_request k = \<lparr>sug_chat = [], sug_world_events = [], sug_n = k\<rparr>"

definition chat_request :: "pystr option \<Rightarrow> ChatRequest" where
  "chat_request m = \<lparr>chat_chat = [], chat_world_events = [], player_message = m\<rparr>"

definition sample_event :: pydict where
  "sample_event =
     [(ascii ''t'', JStr (ascii ''dawn'')), (ascii ''title'', JStr (ascii ''fog'')),
      (ascii ''desc'', JStr (ascii ''thick''))]"

definition dusk_event :: pydict where
  "dusk_event =
     [(ascii ''t'', JStr (ascii ''dusk'')), (ascii ''title'', JStr (ascii ''echo'')),
      (ascii ''desc'', JStr (ascii ''far''))]"

definition partial_events :: "pydict list" where
  "partial_events = [[], [(ascii ''t'', JInt 3)]]"

definition null_content_client :: client where
  "null_content_client args = Inr (Completion [None])"

definition garbage_client :: client where
  "garbage_client args = Inr (Completion [Some (ascii ''not json'')])"

definition voice_request :: VoiceRequest where
  "voice_request = \<lparr>transcript = ascii ''hello'', voice_chat = [], voice_world_events = []\<rparr>"

section \<open>Basic facts\<close>

lemma length_base: "length base = 6"
  by (simp add: base_def)

lemma base_short: "s \<in> set base \<Longrightarrow> length s \<le> 30"
  by (auto simp: base_def)

lemma distinct_base: "distinct base"
  by (simp add: base_def)

lemma fallback_suggestions_take:
  "fallback_suggestions n = take (nat (max 1 (min n 6))) base"
  by (simp add: fallback_suggestions_def length_base slice_to_def)

lemma api_suggestions_no_client:
  "get_openai_client env = None \<Longrightarrow>
   api_suggestions rt env req = Inr \<lparr>suggestions = fallback_suggestions (effective_n req)\<rparr>"
  by (simp add: api_suggestions_def suggestions_body_def effective_n_def)

lemma api_suggestions_client:
  "get_openai_client env = Some cl \<Longrightarrow>
   api_suggestions rt env req =
     try_except (suggestions_try rt env cl suggestions_system (suggestions_prompt rt req) (effective_n req))
       (\<lambda>e. Inr \<lparr>suggestions = fallback_suggestions (effective_n req)\<rparr>)"
  by (simp add: api_suggestions_def suggestions_body_def effective_n_def suggestions_prompt_def Let_def)

lemma api_chat_client:
  "get_openai_client env = Some cl \<Longrightarrow>
   api_chat rt env req =
     try_except (chat_try env cl chat_system (chat_prompt rt req))
       (\<lambda>e. Inr \<lparr>reply = chat_failure_reply\<rparr>)"
  by (simp add: api_chat_def chat_prompt_def Let_def)

lemma api_voice_client:
  "get_openai_client env = Some cl \<Longrightarrow>
   api_voice rt env req =
     try_except (voice_try rt env cl voice_system (voice_prompt rt req))
       (\<lambda>e. Inr \<lparr>world_event = event_triple failure_moment failure_title failure_desc\<rparr>)"
  by (simp add: api_voice_def voice_prompt_def Let_def)

lemma get_client_no_client_env: "get_openai_client no_client_env = None"
  by (simp add: get_openai_client_def no_client_env_def)

lemma get_client_env_with: "get_openai_client (env_with cl) = Some cl"
  by (simp add: get_openai_client_def env_with_def ascii_def)


section \<open>The suggestion endpoint\<close>

text \<open>
  C2. For every integer \<open>n\<close> of a SuggestionRequest, also outside 1..8, the count the
  handler of /api/suggestions works with is \<open>max(1, min(8, n))\<close>: the handler is the
  rest of its body run at that count, which is 1 below the range, 8 above it and
  \<open>n\<close> inside it, and a request that already carries the clamped count gets the same
  answer.
\<close>

theorem api_suggestions_effective_count:
  "api_suggestions rt env req =
     suggestions_body rt env (get_openai_client env) req (max 1 (min 8 (sug_n req)))
   \<and> max 1 (min 8 (sug_n req)) =
       (if sug_n req < 1 then 1 else if 8 < sug_n req then 8 else sug_n req)
   \<and> api_suggestions rt env (req\<lparr>sug_n := max 1 (min 8 (sug_n req))\<rparr>) = api_suggestions rt env req"
  by (cases "get_openai_client env") (simp_all add: api_suggestions_def suggestions_body_def Let_def)

text \<open>
  C3, as stated, fails for a request with \<open>n = 0\<close>: with no client the response has
  one suggestion, and \<open>min(0, 6) = 0\<close>.
\<close>

theorem no_client_count_counterexample:
  "get_openai_client no_client_env = None
   \<and> api_suggestions sample_lib no_client_env (suggestion_request 0)
       = Inr \<lparr>suggestions = take 1 base\<rparr>
   \<and> int (length (take 1 base)) \<noteq> min (sug_n (suggestion_request 0)) 6"
  by (simp add: api_suggestions_no_client get_client_no_client_env effective_n_def
        suggestion_request_def fallback_suggestions_take length_base)

text \<open>
  C3, amended. With no provider client the response of /api/suggestions has exactly
  \<open>max(1, min(n, 6))\<close> suggestions, which is \<open>min(m, 6)\<close> for the effective count
  \<open>m = max(1, min(8, n))\<close> and \<open>min(n, 6)\<close> whenever \<open>n \<ge> 1\<close>; they are a prefix of
  the fixed pool of six, in its order and without repetition, and every call with the
  same \<open>n\<close> and no client gives the same response.
\<close>

theorem no_client_suggestions_prefix:
  assumes "get_openai_client env = None"
  shows "\<exists>r. api_suggestions rt env req = Inr r
           \<and> suggestions r = take (nat (max 1 (min (sug_n req) 6))) base
           \<and> int (length (suggestions r)) = max 1 (min (sug_n req) 6)
           \<and> int (length (suggestions r)) = min (effective_n req) 6
           \<and> (1 \<le> sug_n req \<longrightarrow> int (length (suggestions r)) = min (sug_n req) 6)
           \<and> prefix (suggestions r) base
           \<and> distinct (suggestions r)
           \<and> (\<forall>rt' env' req'. get_openai_client env' = None \<and> sug_n req' = sug_n req
                 \<longrightarrow> api_suggestions rt' env' req' = Inr r)"
proof -
  let ?k = "nat (max 1 (min (sug_n req) 6))"
  have fb: "fallback_suggestions (effective_n req) = take ?k base"
    by (simp add: fallback_suggestions_take effective_n_def) (simp add: max_def min_def)
  have r: "api_suggestions rt env req = Inr \<lparr>suggestions = take ?k base\<rparr>"
    using assms by (simp add: api_suggestions_no_client fb)
  have len: "int (length (take ?k base)) = max 1 (min (sug_n req) 6)"
    by (simp add: length_base)
  have eff: "int (length (take ?k base)) = min (effective_n req) 6"
    unfolding len by (simp add: effective_n_def max_def min_def)
  have pos: "int (length (take ?k base)) = min (sug_n req) 6" if "1 \<le> sug_n req"
    unfolding len using that by (simp add: max_def min_def)
  have same: "api_suggestions rt' env' req' = Inr \<lparr>suggestions = take ?k base\<rparr>"
    if "get_openai_client env' = None \<and> sug_n req' = sug_n req" for rt' env' req'
  proof -
    have "fallback_suggestions (effective_n req') = take ?k base"
      using that fb by (simp add: effective_n_def)
    with that show ?thesis by (simp add: api_suggestions_no_client)
  qed
  show ?thesis
  proof (intro exI [of _ "\<lparr>suggestions = take ?k base\<rparr>"] conjI allI impI)
    show "api_suggestions rt env req = Inr \<lparr>suggestions = take ?k base\<rparr>"
      by (rule r)
    show "suggestions \<lparr>suggestions = take ?k base\<rparr> = take ?k base"
      by simp
    show "int (length (suggestions \<lparr>suggestions = take ?k base\<rparr>)) = max 1 (min (sug_n req) 6)"
      using len by simp
    show "int (length (suggestions \<lparr>suggestions = take ?k base\<rparr>)) = min (effective_n req) 6"
      using eff by simp
    show "int (length (suggestions \<lparr>suggestions = take ?k base\<rparr>)) = min (sug_n req) 6"
      if "1 \<le> sug_n req"
      using pos [OF that] by simp
    show "prefix (suggestions \<lparr>suggestions = take ?k base\<rparr>) base"
      by (simp add: take_is_prefix)
    show "distinct (suggestions \<lparr>suggestions = take ?k base\<rparr>)"
      by (simp add: distinct_base)
    show "api_suggestions rt' env' req' = Inr \<lparr>suggestions = take ?k base\<rparr>"
      if "get_openai_client env' = None \<and> sug_n req' = sug_n req" for rt' env' req'
      by (rule same [OF that])
  qed
qed

theorem no_client_suggestions_prefix_witness:
  "get_openai_client no_client_env = None
   \<and> (\<exists>r. api_suggestions sample_lib no_client_env (suggestion_request 7) = Inr r
         \<and> int (length (suggestions r)) = 6 \<and> suggestions r = base)"
  using no_client_suggestions_prefix [OF get_client_no_client_env, of sample_lib "suggestion_request 7"]
  by (auto simp: get_client_no_client_env suggestion_request_def length_base)

lemma suggestions_try_count:
  "suggestions_try rt env cl system user n = Inr r \<Longrightarrow> 0 \<le> n \<Longrightarrow> int (length (suggestions r)) \<le> n"
  by (auto simp: suggestions_try_def bind_exn_def slice_to_def
           split: sum.splits json.splits if_splits)

lemma suggestions_try_short:
  "suggestions_try rt env cl system user n = Inr r \<Longrightarrow> s \<in> set (suggestions r) \<Longrightarrow> length s \<le> 30"
  by (auto simp: suggestions_try_def bind_exn_def slice_to_def
           split: sum.splits json.splits if_splits dest!: in_set_takeD)

text \<open>
  C4. Every string of every /api/suggestions response has at most 30 characters: on
  the provider path each element is cut to 30 and the list to the effective count, and
  every string of the canned pool, returned when there is no client or the try block
  fails, is at most 30 long.
\<close>

theorem suggestions_at_most_30:
  assumes "api_suggestions rt env req = Inr r"
  shows "(\<forall>s \<in> set (suggestions r). length s \<le> 30)
       \<and> int (length (suggestions r)) \<le> effective_n req
       \<and> (\<forall>s \<in> set base. length s \<le> 30)"
proof -
  have fallback: "(\<forall>s \<in> set (suggestions r). length s \<le> 30)
       \<and> int (length (suggestions r)) \<le> effective_n req"
    if "suggestions r = fallback_suggestions (effective_n req)"
  proof -
    have "int (length (fallback_suggestions (effective_n req))) \<le> effective_n req"
      by (simp add: fallback_suggestions_take length_base effective_n_def)
    then show ?thesis
      using that by (auto simp: fallback_suggestions_take dest: in_set_takeD base_short)
  qed
  have "(\<forall>s \<in> set (suggestions r). length s \<le> 30)
       \<and> int (length (suggestions r)) \<le> effective_n req"
  proof (cases "get_openai_client env")
    case None
    with assms have "suggestions r = fallback_suggestions (effective_n req)"
      by (auto simp: api_suggestions_no_client)
    then show ?thesis by (rule fallback)
  next
    case (Some cl)
    show ?thesis
    proof (cases "suggestions_try rt env cl suggestions_system (suggestions_prompt rt req)
                    (effective_n req)")
      case (Inl e)
      with Some assms have "suggestions r = fallback_suggestions (effective_n req)"
        by (auto simp: api_suggestions_client try_except_def)
      then show ?thesis by (rule fallback)
    next
      case (Inr v)
      with Some assms have "v = r"
        by (simp add: api_suggestions_client try_except_def)
      with Inr show ?thesis
        by (auto dest: suggestions_try_short suggestions_try_count simp: effective_n_def)
    qed
  qed
  then show ?thesis by (auto dest: base_short)
qed

lemma json_loads_mixed:
  "json_loads sample_lib mixed_json_text =
     Some (JObj [(ascii ''suggestions'', JArr [JInt 1, JNull, JBool True, JStr (ascii ''go'')])])"
  by (simp add: sample_lib_def mixed_json_text_def ascii_def)

lemma json_loads_empty_title:
  "json_loads sample_lib empty_title_text =
     Some (JObj [(ascii ''title'', JStr []), (ascii ''desc'', JInt 0)])"
  by (simp add: sample_lib_def mixed_json_text_def empty_title_text_def full_event_text_def
        ascii_def)

lemma suggestions_data_mixed:
  "suggestions_data sample_lib (env_with mixed_client) mixed_client system user =
     Inr (JObj [(ascii ''suggestions'', JArr [JInt 1, JNull, JBool True, JStr (ascii ''go'')])])"
proof -
  have "str_or (Some mixed_json_text) (ascii ''{}'') = mixed_json_text"
    by (simp add: str_or_def mixed_json_text_def)
  then show ?thesis
    by (simp add: suggestions_data_def mixed_client_def bind_exn_def first_content_def
          loads_def json_loads_mixed)
qed

lemma api_suggestions_mixed:
  "api_suggestions sample_lib (env_with mixed_client) (suggestion_request 9) =
     Inr \<lparr>suggestions = [ascii ''1'', ascii ''None'', ascii ''True'', ascii ''go'']\<rparr>"
  by (simp add: api_suggestions_client [OF get_client_env_with] suggestions_try_def
        suggestions_data_mixed bind_exn_def as_dict_def dict_get_def try_except_def
        effective_n_def suggestion_request_def slice_to_def py_str_def str_int_def ascii_def)

theorem suggestions_at_most_30_witness:
  "api_suggestions sample_lib (env_with mixed_client) (suggestion_request 9) =
     Inr \<lparr>suggestions = [ascii ''1'', ascii ''None'', ascii ''True'', ascii ''go'']\<rparr>
   \<and> length (ascii ''None'') \<le> 30"
  using suggestions_at_most_30 [OF api_suggestions_mixed] api_suggestions_mixed
  by simp


section \<open>The chat endpoint without a client\<close>

text \<open>
  C5. With no provider client, /api/chat answers one fixed sentence when
  \<open>player_message\<close> is absent or empty, and otherwise the fixed template with the
  player's message embedded unchanged between its two literal parts.
\<close>

theorem no_client_chat_reply:
  assumes "get_openai_client env = None"
  shows "((player_message req = None \<or> player_message req = Some [])
            \<longrightarrow> api_chat rt env req = Inr \<lparr>reply = chat_generic_reply\<rparr>)
       \<and> (\<forall>m. player_message req = Some m \<and> m \<noteq> []
            \<longrightarrow> api_chat rt env req
                = Inr \<lparr>reply = chat_template_prefix @ m @ chat_template_suffix\<rparr>)"
  using assms by (auto simp: api_chat_def str_or_def Let_def)

theorem no_client_chat_reply_witness:
  "get_openai_client no_client_env = None
   \<and> player_message (chat_request None) = None
   \<and> api_chat sample_lib no_client_env (chat_request None) = Inr \<lparr>reply = chat_generic_reply\<rparr>
   \<and> player_message (chat_request (Some (ascii ''run''))) = Some (ascii ''run'')
   \<and> ascii ''run'' \<noteq> []
   \<and> api_chat sample_lib no_client_env (chat_request (Some (ascii ''run'')))
       = Inr \<lparr>reply = chat_template_prefix @ ascii ''run'' @ chat_template_suffix\<rparr>"
  using no_client_chat_reply [OF get_client_no_client_env, of "chat_request None" sample_lib]
    no_client_chat_reply [OF get_client_no_client_env, of "chat_request (Some (ascii ''run''))" sample_lib]
  by (simp add: get_client_no_client_env chat_request_def ascii_def)

section \<open>The prompt builder\<close>

lemma length_world_context_lines:
  "length (world_context_lines rt evs) = min 8 (length evs)"
  by (simp add: world_context_lines_def slice_to_def)

lemma world_context_lines_nth:
  "i < min 8 (length evs) \<Longrightarrow> world_context_lines rt evs ! i = event_line rt (evs ! i)"
  by (simp add: world_context_lines_def slice_to_def)

lemma py_str_JStr: "py_str rt (JStr s) = s"
  by (simp add: py_str_def)

lemma join_terminated:
  "xs \<noteq> [] \<Longrightarrow> join sep xs @ sep = concat (map (\<lambda>x. x @ sep) xs)"
  by (induction sep xs rule: join.induct) simp_all

lemma build_world_context_terminated:
  assumes "evs \<noteq> []"
  shows "build_world_context rt evs @ [0xA]
           = concat (map (\<lambda>ev. event_line rt ev @ [0xA]) (take 8 evs))"
proof -
  have "map (event_line rt) (take 8 evs) \<noteq> []"
    using assms by (cases evs) simp_all
  then have "join [0xA] (map (event_line rt) (take 8 evs)) @ [0xA]
               = concat (map (\<lambda>x. x @ [0xA]) (map (event_line rt) (take 8 evs)))"
    by (rule join_terminated)
  with assms show ?thesis
    by (simp add: build_world_context_def world_context_lines_def slice_to_def comp_def)
qed

lemma build_world_context_one: "build_world_context rt [e] = event_line rt e"
  by (simp add: build_world_context_def world_context_lines_def slice_to_def)

lemma build_world_context_two:
  "build_world_context rt [e1, e2] = event_line rt e1 @ [0xA] @ event_line rt e2"
  by (simp add: build_world_context_def world_context_lines_def slice_to_def)

lemma event_line_cases:
  "event_line rt ev =
     [0x2D, 0x20]
     @ (case map_of ev (ascii ''t'') of None \<Rightarrow> [0x3F] | Some v \<Rightarrow> py_str rt v)
     @ [0x20, 0xB7, 0x20]
     @ (case map_of ev (ascii ''title'') of None \<Rightarrow> [] | Some v \<Rightarrow> py_str rt v)
     @ [0x20, 0xB7, 0x20]
     @ (case map_of ev (ascii ''desc'') of None \<Rightarrow> [] | Some v \<Rightarrow> py_str rt v)"
  by (simp add: event_line_def dict_get_default_def py_str_JStr dot_sep_def ascii_def
           split: option.splits)

text \<open>
  C7. For an empty list of world events the prompt builder returns the marker of
  line 101. For any other list it renders the first 8 events by position, one line
  each, joined by newlines: the result followed by a newline is the concatenation of
  the lines of the first 8 events, each followed by a newline, so one event gives its
  line and two events give the first line, a newline and the second line. Events
  after the eighth do not change the result. The line of an event that has \<open>t\<close>,
  \<open>title\<close> and \<open>desc\<close> is \<open>- t . title . desc\<close>, the values formatted as \<open>str\<close>
  does and the separator a middle dot between two spaces.
\<close>

theorem build_world_context_renders:
  "build_world_context rt [] = [0x28, 0x65E0, 0x4E16, 0x754C, 0x4E8B, 0x4EF6, 0x29]
   \<and> (evs \<noteq> [] \<longrightarrow>
        build_world_context rt evs @ [0xA]
          = concat (map (\<lambda>ev. event_line rt ev @ [0xA]) (take 8 evs)))
   \<and> build_world_context rt [e1] = event_line rt e1
   \<and> build_world_context rt [e1, e2] = event_line rt e1 @ [0xA] @ event_line rt e2
   \<and> build_world_context rt (take 8 evs) = build_world_context rt evs
   \<and> length (world_context_lines rt evs) = min 8 (length evs)
   \<and> (map_of ev (ascii ''t'') = Some vt \<and> map_of ev (ascii ''title'') = Some vti
        \<and> map_of ev (ascii ''desc'') = Some vde \<longrightarrow>
        event_line rt ev = [0x2D, 0x20] @ py_str rt vt @ [0x20, 0xB7, 0x20] @ py_str rt vti
                           @ [0x20, 0xB7, 0x20] @ py_str rt vde)
   \<and> (map_of ev (ascii ''t'') = Some (JStr t) \<and> map_of ev (ascii ''title'') = Some (JStr ti)
        \<and> map_of ev (ascii ''desc'') = Some (JStr de) \<longrightarrow>
        event_line rt ev = [0x2D, 0x20] @ t @ [0x20, 0xB7, 0x20] @ ti @ [0x20, 0xB7, 0x20] @ de)"
proof (intro conjI impI)
  show "build_world_context rt [] = [0x28, 0x65E0, 0x4E16, 0x754C, 0x4E8B, 0x4EF6, 0x29]"
    by (simp add: build_world_context_def no_world_events_def)
  show "build_world_context rt evs @ [0xA]
          = concat (map (\<lambda>ev. event_line rt ev @ [0xA]) (take 8 evs))"
    if "evs \<noteq> []"
    using that by (rule build_world_context_terminated)
  show "build_world_context rt [e1] = event_line rt e1"
    by (rule build_world_context_one)
  show "build_world_context rt [e1, e2] = event_line rt e1 @ [0xA] @ event_line rt e2"
    by (rule build_world_context_two)
  show "build_world_context rt (take 8 evs) = build_world_context rt evs"
    by (cases evs) (simp_all add: build_world_context_def world_context_lines_def slice_to_def)
  show "length (world_context_lines rt evs) = min 8 (length evs)"
    by (rule length_world_context_lines)
  show "event_line rt ev = [0x2D, 0x20] @ py_str rt vt @ [0x20, 0xB7, 0x20] @ py_str rt vti
                           @ [0x20, 0xB7, 0x20] @ py_str rt vde"
    if "map_of ev (ascii ''t'') = Some vt \<and> map_of ev (ascii ''title'') = Some vti
        \<and> map_of ev (ascii ''desc'') = Some vde"
    using that by (simp add: event_line_cases)
  show "event_line rt ev = [0x2D, 0x20] @ t @ [0x20, 0xB7, 0x20] @ ti @ [0x20, 0xB7, 0x20] @ de"
    if "map_of ev (ascii ''t'') = Some (JStr t) \<and> map_of ev (ascii ''title'') = Some (JStr ti)
        \<and> map_of ev (ascii ''desc'') = Some (JStr de)"
    using that by (simp add: event_line_cases py_str_JStr)
qed

theorem build_world_context_renders_witness:
  "[sample_event, dusk_event] \<noteq> []
   \<and> map_of sample_event (ascii ''t'') = Some (JStr (ascii ''dawn''))
   \<and> map_of sample_event (ascii ''title'') = Some (JStr (ascii ''fog''))
   \<and> map_of sample_event (ascii ''desc'') = Some (JStr (ascii ''thick''))
   \<and> build_world_context sample_lib [sample_event, dusk_event]
       = ascii ''- dawn'' @ [0x20, 0xB7, 0x20] @ ascii ''fog'' @ [0x20, 0xB7, 0x20]
         @ ascii ''thick'' @ [0xA] @ ascii ''- dusk'' @ [0x20, 0xB7, 0x20] @ ascii ''echo''
         @ [0x20, 0xB7, 0x20] @ ascii ''far''
   \<and> build_world_context sample_lib (replicate 8 sample_event @ [dusk_event])
       = build_world_context sample_lib (replicate 8 sample_event)"
proof -
  have s: "map_of sample_event (ascii ''t'') = Some (JStr (ascii ''dawn''))
      \<and> map_of sample_event (ascii ''title'') = Some (JStr (ascii ''fog''))
      \<and> map_of sample_event (ascii ''desc'') = Some (JStr (ascii ''thick''))"
    by (simp add: sample_event_def ascii_def)
  have d: "map_of dusk_event (ascii ''t'') = Some (JStr (ascii ''dusk''))
      \<and> map_of dusk_event (ascii ''title'') = Some (JStr (ascii ''echo''))
      \<and> map_of dusk_event (ascii ''desc'') = Some (JStr (ascii ''far''))"
    by (simp add: dusk_event_def ascii_def)
  note first = build_world_context_renders [of sample_lib "[sample_event, dusk_event]"
      sample_event dusk_event sample_event "JStr (ascii ''dawn'')" "JStr (ascii ''fog'')"
      "JStr (ascii ''thick'')" "ascii ''dawn''" "ascii ''fog''" "ascii ''thick''"]
  note second = build_world_context_renders [of sample_lib "replicate 8 sample_event @ [dusk_event]"
      sample_event dusk_event dusk_event "JStr (ascii ''dusk'')" "JStr (ascii ''echo'')"
      "JStr (ascii ''far'')" "ascii ''dusk''" "ascii ''echo''" "ascii ''far''"]
  have l1: "event_line sample_lib sample_event
      = [0x2D, 0x20] @ ascii ''dawn'' @ [0x20, 0xB7, 0x20] @ ascii ''fog''
        @ [0x20, 0xB7, 0x20] @ ascii ''thick''"
    using first s by blast
  have l2: "event_line sample_lib dusk_event
      = [0x2D, 0x20] @ ascii ''dusk'' @ [0x20, 0xB7, 0x20] @ ascii ''echo''
        @ [0x20, 0xB7, 0x20] @ ascii ''far''"
    using second d by blast
  have two: "build_world_context sample_lib [sample_event, dusk_event]
      = event_line sample_lib sample_event @ [0xA] @ event_line sample_lib dusk_event"
    using first by blast
  have "take 8 (replicate 8 sample_event @ [dusk_event]) = replicate 8 sample_event"
    by simp
  with second have nine: "build_world_context sample_lib (replicate 8 sample_event @ [dusk_event])
       = build_world_context sample_lib (replicate 8 sample_event)"
    by metis
  show ?thesis
    using s nine by (simp add: two l1 l2 ascii_def)
qed

text \<open>
  C10. The prompt builder reads the three keys with \<open>dict.get\<close> and a default, which
  never raises, so it returns a string for every list of events, whatever keys they
  have. In the returned string each of the first 8 events is one line, in which a
  missing \<open>t\<close> is rendered \<open>?\<close> and a missing \<open>title\<close> or \<open>desc\<close> is rendered as the
  empty string: the builder's result for a single event with no key at all is
  \<open>- ? .  . \<close>, and such an event in front of another contributes that line and a
  newline.
\<close>

theorem event_line_missing_keys:
  "(evs \<noteq> [] \<longrightarrow>
      build_world_context rt evs @ [0xA]
        = concat (map (\<lambda>ev.
            [0x2D, 0x20]
            @ (case map_of ev (ascii ''t'') of None \<Rightarrow> [0x3F] | Some v \<Rightarrow> py_str rt v)
            @ [0x20, 0xB7, 0x20]
            @ (case map_of ev (ascii ''title'') of None \<Rightarrow> [] | Some v \<Rightarrow> py_str rt v)
            @ [0x20, 0xB7, 0x20]
            @ (case map_of ev (ascii ''desc'') of None \<Rightarrow> [] | Some v \<Rightarrow> py_str rt v)
            @ [0xA]) (take 8 evs)))
   \<and> build_world_context rt [[]] = [0x2D, 0x20, 0x3F, 0x20, 0xB7, 0x20, 0x20, 0xB7, 0x20]
   \<and> build_world_context rt [ev] =
       [0x2D, 0x20]
       @ (case map_of ev (ascii ''t'') of None \<Rightarrow> [0x3F] | Some v \<Rightarrow> py_str rt v)
       @ [0x20, 0xB7, 0x20]
       @ (case map_of ev (ascii ''title'') of None \<Rightarrow> [] | Some v \<Rightarrow> py_str rt v)
       @ [0x20, 0xB7, 0x20]
       @ (case map_of ev (ascii ''desc'') of None \<Rightarrow> [] | Some v \<Rightarrow> py_str rt v)
   \<and> build_world_context rt [[], ev] =
       [0x2D, 0x20, 0x3F, 0x20, 0xB7, 0x20, 0x20, 0xB7, 0x20, 0xA] @ build_world_context rt [ev]
   \<and> length (world_context_lines rt evs) = min 8 (length evs)
   \<and> (\<forall>i < min 8 (length evs). world_context_lines rt evs ! i = event_line rt (evs ! i))"
proof (intro conjI allI impI)
  show "build_world_context rt evs @ [0xA]
        = concat (map (\<lambda>ev.
            [0x2D, 0x20]
            @ (case map_of ev (ascii ''t'') of None \<Rightarrow> [0x3F] | Some v \<Rightarrow> py_str rt v)
            @ [0x20, 0xB7, 0x20]
            @ (case map_of ev (ascii ''title'') of None \<Rightarrow> [] | Some v \<Rightarrow> py_str rt v)
            @ [0x20, 0xB7, 0x20]
            @ (case map_of ev (ascii ''desc'') of None \<Rightarrow> [] | Some v \<Rightarrow> py_str rt v)
            @ [0xA]) (take 8 evs))"
    if "evs \<noteq> []"
    using build_world_context_terminated [OF that, of rt] by (simp add: event_line_cases)
  show "build_world_context rt [[]] = [0x2D, 0x20, 0x3F, 0x20, 0xB7, 0x20, 0x20, 0xB7, 0x20]"
    by (simp add: build_world_context_one event_line_cases)
  show "build_world_context rt [ev] =
       [0x2D, 0x20]
       @ (case map_of ev (ascii ''t'') of None \<Rightarrow> [0x3F] | Some v \<Rightarrow> py_str rt v)
       @ [0x20, 0xB7, 0x20]
       @ (case map_of ev (ascii ''title'') of None \<Rightarrow> [] | Some v \<Rightarrow> py_str rt v)
       @ [0x20, 0xB7, 0x20]
       @ (case map_of ev (ascii ''desc'') of None \<Rightarrow> [] | Some v \<Rightarrow> py_str rt v)"
    by (simp only: build_world_context_one event_line_cases)
  show "build_world_context rt [[], ev] =
       [0x2D, 0x20, 0x3F, 0x20, 0xB7, 0x20, 0x20, 0xB7, 0x20, 0xA] @ build_world_context rt [ev]"
    by (simp add: build_world_context_one build_world_context_two event_line_cases [of rt "[]"])
  show "length (world_context_lines rt evs) = min 8 (length evs)"
    by (rule length_world_context_lines)
  show "world_context_lines rt evs ! i = event_line rt (evs ! i)" if "i < min 8 (length evs)" for i
    using that by (rule world_context_lines_nth)
qed

theorem event_line_missing_keys_witness:
  "partial_events \<noteq> []
   \<and> (1::nat) < min 8 (length partial_events)
   \<and> build_world_context sample_lib partial_events
       = ascii ''- ?'' @ [0x20, 0xB7, 0x20] @ [0x20, 0xB7, 0x20] @ [0xA]
         @ ascii ''- 3'' @ [0x20, 0xB7, 0x20] @ [0x20, 0xB7, 0x20]
   \<and> world_context_lines sample_lib partial_events ! 1
       = event_line sample_lib [(ascii ''t'', JInt 3)]"
proof -
  note th = event_line_missing_keys [of partial_events sample_lib "[(ascii ''t'', JInt 3)]"]
  have len: "(1::nat) < min 8 (length partial_events)"
    by (simp add: partial_events_def)
  have "build_world_context sample_lib [[], [(ascii ''t'', JInt 3)]]
       = [0x2D, 0x20, 0x3F, 0x20, 0xB7, 0x20, 0x20, 0xB7, 0x20, 0xA]
         @ build_world_context sample_lib [[(ascii ''t'', JInt 3)]]"
    using th by blast
  moreover have "build_world_context sample_lib [[(ascii ''t'', JInt 3)]]
       = [0x2D, 0x20, 0x33, 0x20, 0xB7, 0x20, 0x20, 0xB7, 0x20]"
    using th by (simp add: ascii_def py_str_def str_int_def)
  moreover have "world_context_lines sample_lib partial_events ! 1
       = event_line sample_lib (partial_events ! 1)"
    using th len by blast
  ultimately show ?thesis
    using len by (simp add: partial_events_def ascii_def)
qed

section \<open>Failures on the provider path\<close>

lemma utf8_base: "s \<in> set base \<Longrightarrow> utf8_encodable s"
  by (auto simp: base_def utf8_encodable_def)

lemma fallback_encodable:
  "suggestions_encodable \<lparr>suggestions = fallback_suggestions n\<rparr>"
  by (auto simp: suggestions_encodable_def fallback_suggestions_take list_all_iff
           dest: in_set_takeD utf8_base)

lemma chat_failure_encodable: "chat_encodable \<lparr>reply = chat_failure_reply\<rparr>"
  by (simp add: chat_encodable_def chat_failure_reply_def utf8_encodable_def)

lemma voice_failure_encodable:
  "voice_encodable \<lparr>world_event = event_triple failure_moment failure_title failure_desc\<rparr>"
  by (simp add: voice_encodable_def event_triple_def failure_moment_def failure_title_def
        failure_desc_def utf8_encodable_def ascii_def)

text \<open>
  Not every request is answered with status 200: with no client the handler of
  /api/chat returns the player's message inside its reply, and a message holding a
  surrogate code point cannot be encoded.
\<close>

lemma chat_surrogate_status:
  "http_status chat_encodable (api_chat sample_lib no_client_env (chat_request (Some [0xD800])))
     = 500"
  by (simp add: api_chat_def get_client_no_client_env chat_request_def str_or_def Let_def
        http_status_def chat_encodable_def utf8_encodable_def)

lemma voice_try_data_raises:
  "voice_data rt env cl system user = Inl e \<Longrightarrow> voice_try rt env cl system user = Inl e"
  by (simp add: voice_try_def bind_exn_def)

lemma call_raises_suggestions:
  "\<forall>args. \<exists>e. cl args = Inl e \<Longrightarrow> \<exists>e. suggestions_try rt env cl system user n = Inl e"
proof -
  assume a: "\<forall>args. \<exists>e. cl args = Inl e"
  obtain e where "cl \<lparr>model = MODEL_DEFAULT env, system_content = system, user_content = user,
       json_object = True, temperature = 0x3FE6666666666666, max_tokens = 200\<rparr> = Inl e"
    using a by blast
  then show ?thesis
    by (simp add: suggestions_try_def suggestions_data_def bind_exn_def)
qed

lemma call_raises_chat:
  "\<forall>args. \<exists>e. cl args = Inl e \<Longrightarrow> \<exists>e. chat_try env cl system user = Inl e"
proof -
  assume a: "\<forall>args. \<exists>e. cl args = Inl e"
  obtain e where "cl \<lparr>model = MODEL_DEFAULT env, system_content = system, user_content = user,
       json_object = False, temperature = 0x3FE3333333333333, max_tokens = 80\<rparr> = Inl e"
    using a by blast
  then show ?thesis
    by (simp add: chat_try_def bind_exn_def)
qed

lemma call_raises_voice:
  "\<forall>args. \<exists>e. cl args = Inl e \<Longrightarrow> \<exists>e. voice_try rt env cl system user = Inl e"
proof -
  assume a: "\<forall>args. \<exists>e. cl args = Inl e"
  obtain e where "cl \<lparr>model = MODEL_DEFAULT env, system_content = system, user_content = user,
       json_object = True, temperature = 0x3FE6666666666666, max_tokens = 120\<rparr> = Inl e"
    using a by blast
  then show ?thesis
    by (simp add: voice_try_def voice_data_def bind_exn_def)
qed

lemma parse_raises_suggestions:
  "\<forall>args. cl args = Inr (Completion [c]) \<Longrightarrow> json_loads rt (str_or c (ascii ''{}'')) = None \<Longrightarrow>
   suggestions_try rt env cl system user n = Inl JSONDecodeError"
  by (simp add: suggestions_try_def suggestions_data_def bind_exn_def first_content_def loads_def)

lemma parse_raises_voice:
  "\<forall>args. cl args = Inr (Completion [c]) \<Longrightarrow> json_loads rt (str_or c (ascii ''{}'')) = None \<Longrightarrow>
   voice_try rt env cl system user = Inl JSONDecodeError"
  by (simp add: voice_try_def voice_data_def bind_exn_def first_content_def loads_def)

lemma suggestions_raise_fallback:
  assumes "get_openai_client env = Some cl"
    and "\<exists>e. suggestions_try rt env cl suggestions_system (suggestions_prompt rt req)
               (effective_n req) = Inl e"
  shows "api_suggestions rt env req = Inr \<lparr>suggestions = fallback_suggestions (effective_n req)\<rparr>
       \<and> http_status suggestions_encodable (api_suggestions rt env req) = 200"
proof -
  have "api_suggestions rt env req = Inr \<lparr>suggestions = fallback_suggestions (effective_n req)\<rparr>"
    using assms by (auto simp: api_suggestions_client try_except_def)
  then show ?thesis
    by (simp add: http_status_def fallback_encodable)
qed

lemma chat_raise_fallback:
  assumes "get_openai_client env = Some cl"
    and "\<exists>e. chat_try env cl chat_system (chat_prompt rt req) = Inl e"
  shows "api_chat rt env req = Inr \<lparr>reply = chat_failure_reply\<rparr>
       \<and> http_status chat_encodable (api_chat rt env req) = 200"
proof -
  have "api_chat rt env req = Inr \<lparr>reply = chat_failure_reply\<rparr>"
    using assms by (auto simp: api_chat_client try_except_def)
  then show ?thesis
    by (simp add: http_status_def chat_failure_encodable)
qed

lemma voice_raise_fallback:
  assumes "get_openai_client env = Some cl"
    and "\<exists>e. voice_try rt env cl voice_system (voice_prompt rt req) = Inl e"
  shows "api_voice rt env req
           = Inr \<lparr>world_event = event_triple failure_moment failure_title failure_desc\<rparr>
       \<and> http_status voice_encodable (api_voice rt env req) = 200"
proof -
  have "api_voice rt env req
          = Inr \<lparr>world_event = event_triple failure_moment failure_title failure_desc\<rparr>"
    using assms by (auto simp: api_voice_client try_except_def)
  then show ?thesis
    by (simp add: http_status_def voice_failure_encodable)
qed

text \<open>
  C1. When a client is configured and the try block of a handler raises, whatever
  the exception, the handler returns the endpoint's fallback value and the answer has
  status 200: the canned pool at the effective count for /api/suggestions, the fixed
  sentence of line 190 for /api/chat, the fixed triple of lines 231 to 233 for
  /api/voice. In particular this is so when the provider call itself raises, and
  when the content of the answer is not JSON. No exception raised inside a try block
  leaves the handler.
\<close>

theorem provider_failure_returns_fallback:
  assumes "get_openai_client env = Some cl"
  shows
    "((\<exists>e. suggestions_try rt env cl suggestions_system (suggestions_prompt rt sreq)
              (effective_n sreq) = Inl e)
        \<longrightarrow> api_suggestions rt env sreq
              = Inr \<lparr>suggestions = fallback_suggestions (effective_n sreq)\<rparr>
          \<and> http_status suggestions_encodable (api_suggestions rt env sreq) = 200)
   \<and> ((\<exists>e. chat_try env cl chat_system (chat_prompt rt creq) = Inl e)
        \<longrightarrow> api_chat rt env creq = Inr \<lparr>reply = chat_failure_reply\<rparr>
          \<and> http_status chat_encodable (api_chat rt env creq) = 200)
   \<and> ((\<exists>e. voice_try rt env cl voice_system (voice_prompt rt vreq) = Inl e)
        \<longrightarrow> api_voice rt env vreq
              = Inr \<lparr>world_event = event_triple failure_moment failure_title failure_desc\<rparr>
          \<and> http_status voice_encodable (api_voice rt env vreq) = 200)
   \<and> ((\<forall>args. \<exists>e. cl args = Inl e)
        \<longrightarrow> api_suggestions rt env sreq
              = Inr \<lparr>suggestions = fallback_suggestions (effective_n sreq)\<rparr>
          \<and> http_status suggestions_encodable (api_suggestions rt env sreq) = 200
          \<and> api_chat rt env creq = Inr \<lparr>reply = chat_failure_reply\<rparr>
          \<and> http_status chat_encodable (api_chat rt env creq) = 200
          \<and> api_voice rt env vreq
              = Inr \<lparr>world_event = event_triple failure_moment failure_title failure_desc\<rparr>
          \<and> http_status voice_encodable (api_voice rt env vreq) = 200)
   \<and> ((\<forall>args. cl args = Inr (Completion [c])) \<and> json_loads rt (str_or c (ascii ''{}'')) = None
        \<longrightarrow> api_suggestions rt env sreq
              = Inr \<lparr>suggestions = fallback_suggestions (effective_n sreq)\<rparr>
          \<and> http_status suggestions_encodable (api_suggestions rt env sreq) = 200
          \<and> api_voice rt env vreq
              = Inr \<lparr>world_event = event_triple failure_moment failure_title failure_desc\<rparr>
          \<and> http_status voice_encodable (api_voice rt env vreq) = 200)"
proof -
  note s = suggestions_raise_fallback [OF assms, of rt sreq]
  note c = chat_raise_fallback [OF assms, of rt creq]
  note v = voice_raise_fallback [OF assms, of rt vreq]
  have call: "(\<exists>e. suggestions_try rt env cl suggestions_system (suggestions_prompt rt sreq)
                   (effective_n sreq) = Inl e)
            \<and> (\<exists>e. chat_try env cl chat_system (chat_prompt rt creq) = Inl e)
            \<and> (\<exists>e. voice_try rt env cl voice_system (voice_prompt rt vreq) = Inl e)"
    if "\<forall>args. \<exists>e. cl args = Inl e"
    using call_raises_suggestions [OF that] call_raises_chat [OF that] call_raises_voice [OF that]
    by blast
  have parse: "(\<exists>e. suggestions_try rt env cl suggestions_system (suggestions_prompt rt sreq)
                   (effective_n sreq) = Inl e)
            \<and> (\<exists>e. voice_try rt env cl voice_system (voice_prompt rt vreq) = Inl e)"
    if "(\<forall>args. cl args = Inr (Completion [c])) \<and> json_loads rt (str_or c (ascii ''{}'')) = None"
    using that by (simp add: parse_raises_suggestions parse_raises_voice)
  show ?thesis
    using s c v call parse by blast
qed

lemma suggestions_try_raising:
  "suggestions_try rt env raising_client system user n = Inl (ProviderError (ascii ''timeout''))"
  by (simp add: suggestions_try_def suggestions_data_def bind_exn_def raising_client_def)

lemma json_loads_garbage:
  "json_loads sample_lib (str_or (Some (ascii ''not json'')) (ascii ''{}'')) = None"
  by (simp add: sample_lib_def str_or_def mixed_json_text_def empty_title_text_def
        full_event_text_def ascii_def)

theorem provider_failure_returns_fallback_witness:
  "get_openai_client (env_with raising_client) = Some raising_client
   \<and> suggestions_try sample_lib (env_with raising_client) raising_client suggestions_system
         (suggestions_prompt sample_lib (suggestion_request 9)) (effective_n (suggestion_request 9))
       = Inl (ProviderError (ascii ''timeout''))
   \<and> api_suggestions sample_lib (env_with raising_client) (suggestion_request 9)
       = Inr \<lparr>suggestions = base\<rparr>
   \<and> http_status suggestions_encodable
        (api_suggestions sample_lib (env_with raising_client) (suggestion_request 9)) = 200
   \<and> api_chat sample_lib (env_with raising_client) (chat_request None)
       = Inr \<lparr>reply = chat_failure_reply\<rparr>
   \<and> http_status chat_encodable
        (api_chat sample_lib (env_with raising_client) (chat_request None)) = 200
   \<and> api_voice sample_lib (env_with raising_client) voice_request
       = Inr \<lparr>world_event = event_triple failure_moment failure_title failure_desc\<rparr>
   \<and> http_status voice_encodable
        (api_voice sample_lib (env_with raising_client) voice_request) = 200
   \<and> get_openai_client (env_with garbage_client) = Some garbage_client
   \<and> json_loads sample_lib (str_or (Some (ascii ''not json'')) (ascii ''{}'')) = None
   \<and> api_suggestions sample_lib (env_with garbage_client) (suggestion_request 2)
       = Inr \<lparr>suggestions = take 2 base\<rparr>
   \<and> http_status suggestions_encodable
        (api_suggestions sample_lib (env_with garbage_client) (suggestion_request 2)) = 200"
proof -
  note raising = provider_failure_returns_fallback
          [OF get_client_env_with, of sample_lib raising_client "suggestion_request 9"
              "chat_request None" voice_request None]
  note garbage = provider_failure_returns_fallback
          [OF get_client_env_with, of sample_lib garbage_client "suggestion_request 2"
              "chat_request None" voice_request "Some (ascii ''not json'')"]
  have r: "\<forall>args. \<exists>e. raising_client args = Inl e"
    by (simp add: raising_client_def)
  have g: "(\<forall>args. garbage_client args = Inr (Completion [Some (ascii ''not json'')]))
           \<and> json_loads sample_lib (str_or (Some (ascii ''not json'')) (ascii ''{}'')) = None"
    by (simp add: garbage_client_def json_loads_garbage)
  have f9: "fallback_suggestions (effective_n (suggestion_request 9)) = base"
    by (simp add: effective_n_def suggestion_request_def fallback_suggestions_take length_base)
  have f2: "fallback_suggestions (effective_n (suggestion_request 2)) = take 2 base"
    by (simp add: effective_n_def suggestion_request_def fallback_suggestions_take)
  from raising r have
    "api_suggestions sample_lib (env_with raising_client) (suggestion_request 9)
       = Inr \<lparr>suggestions = fallback_suggestions (effective_n (suggestion_request 9))\<rparr>"
    "http_status suggestions_encodable
        (api_suggestions sample_lib (env_with raising_client) (suggestion_request 9)) = 200"
    "api_chat sample_lib (env_with raising_client) (chat_request None)
       = Inr \<lparr>reply = chat_failure_reply\<rparr>"
    "http_status chat_encodable
        (api_chat sample_lib (env_with raising_client) (chat_request None)) = 200"
    "api_voice sample_lib (env_with raising_client) voice_request
       = Inr \<lparr>world_event = event_triple failure_moment failure_title failure_desc\<rparr>"
    "http_status voice_encodable
        (api_voice sample_lib (env_with raising_client) voice_request) = 200"
    by blast+
  moreover from garbage g have
    "api_suggestions sample_lib (env_with garbage_client) (suggestion_request 2)
       = Inr \<lparr>suggestions = fallback_suggestions (effective_n (suggestion_request 2))\<rparr>"
    "http_status suggestions_encodable
        (api_suggestions sample_lib (env_with garbage_client) (suggestion_request 2)) = 200"
    by blast+
  ultimately show ?thesis
    using f9 f2 json_loads_garbage suggestions_try_raising
    by (simp add: get_client_env_with)
qed

section \<open>The voice endpoint on the provider path\<close>

lemma api_voice_parsed:
  assumes "get_openai_client env = Some cl"
    and "voice_data rt env cl voice_system (voice_prompt rt req) = Inr (JObj d)"
  shows "api_voice rt env req = Inr (voice_fields rt d)"
  using assms
  by (simp add: api_voice_client voice_try_def bind_exn_def as_dict_def try_except_def)

lemma voice_fields_triple:
  "voice_fields rt d =
     \<lparr>world_event = event_triple
        (py_str rt (py_or (dict_get d (ascii ''t'')) (JStr this_moment)))
        (py_str rt (py_or (dict_get d (ascii ''title'')) (JStr default_title)))
        (py_str rt (py_or (dict_get d (ascii ''desc'')) (JStr default_desc)))\<rparr>"
  by (simp add: voice_fields_def Let_def)

lemma field_default:
  "\<not> truthy (dict_get d k) \<Longrightarrow> py_str rt (py_or (dict_get d k) (JStr dflt)) = dflt"
  by (simp add: py_or_def py_str_def)

lemma dict_get_absent: "map_of d k = None \<Longrightarrow> dict_get d k = JNull"
  by (simp add: dict_get_def)

lemma json_loads_full_event:
  "json_loads sample_lib full_event_text =
     Some (JObj [(ascii ''t'', JStr (ascii ''dusk'')), (ascii ''title'', JStr (ascii ''echo'')),
                 (ascii ''desc'', JStr (ascii ''far''))])"
  by (simp add: sample_lib_def mixed_json_text_def empty_title_text_def full_event_text_def
        ascii_def)

lemma json_loads_braces: "json_loads sample_lib (ascii ''{}'') = Some (JObj [])"
  by (simp add: sample_lib_def)

lemma voice_data_raising:
  "voice_data rt env raising_client system user = Inl (ProviderError (ascii ''timeout''))"
  by (simp add: voice_data_def bind_exn_def raising_client_def)

lemma voice_data_null_content:
  "voice_data sample_lib env null_content_client system user = Inr (JObj [])"
  by (simp add: voice_data_def bind_exn_def null_content_client_def first_content_def
        loads_def str_or_def json_loads_braces)

lemma voice_data_full_event:
  "voice_data sample_lib env full_event_client system user =
     Inr (JObj [(ascii ''t'', JStr (ascii ''dusk'')), (ascii ''title'', JStr (ascii ''echo'')),
                (ascii ''desc'', JStr (ascii ''far''))])"
proof -
  have "str_or (Some full_event_text) (ascii ''{}'') = full_event_text"
    by (simp add: str_or_def full_event_text_def)
  then show ?thesis
    by (simp add: voice_data_def bind_exn_def full_event_client_def first_content_def
          loads_def json_loads_full_event)
qed

lemma voice_data_empty_title:
  "voice_data sample_lib env empty_title_client system user =
     Inr (JObj [(ascii ''title'', JStr []), (ascii ''desc'', JInt 0)])"
proof -
  have "str_or (Some empty_title_text) (ascii ''{}'') = empty_title_text"
    by (simp add: str_or_def empty_title_text_def)
  then show ?thesis
    by (simp add: voice_data_def bind_exn_def empty_title_client_def first_content_def
          loads_def json_loads_empty_title)
qed

lemma api_voice_raising:
  "api_voice sample_lib (env_with raising_client) voice_request
     = Inr \<lparr>world_event = event_triple failure_moment failure_title failure_desc\<rparr>"
  by (simp add: api_voice_client [OF get_client_env_with] voice_try_def voice_data_raising
        bind_exn_def try_except_def)

lemma api_voice_null_content:
  "api_voice sample_lib (env_with null_content_client) voice_request
     = Inr \<lparr>world_event = event_triple this_moment default_title default_desc\<rparr>"
  by (simp add: api_voice_parsed [OF get_client_env_with voice_data_null_content]
        voice_fields_triple dict_get_def py_or_def py_str_def)

text \<open>
  C6, as stated, fails for \<open>t\<close>: the answer with no content parses to the empty
  object and gets the three defaults, the raising provider gets the failure triple,
  and the default of \<open>t\<close> (line 225) is the same string as the \<open>t\<close> of the failure
  triple (line 231).
\<close>

theorem voice_default_moment_counterexample:
  "api_voice sample_lib (env_with null_content_client) voice_request
     = Inr \<lparr>world_event = event_triple this_moment default_title default_desc\<rparr>
   \<and> api_voice sample_lib (env_with raising_client) voice_request
     = Inr \<lparr>world_event = event_triple failure_moment failure_title failure_desc\<rparr>
   \<and> this_moment = failure_moment
   \<and> map_of (event_triple this_moment default_title default_desc) (ascii ''t'')
       = map_of (event_triple failure_moment failure_title failure_desc) (ascii ''t'')"
  by (simp add: api_voice_null_content api_voice_raising this_moment_def failure_moment_def
        event_triple_def)

text \<open>
  C6, amended. On the provider path /api/voice has two different fallbacks. When the
  call or the parse of its answer raises, the response is the fixed triple of lines
  231 to 233. When the answer parses to an object, each of the three fields is
  defaulted on its own: an absent \<open>t\<close> becomes the string of line 225, an absent
  \<open>title\<close> the string of line 226, an absent \<open>desc\<close> the string of line 227, and a
  field that is a non-empty string is kept. The default title and the default
  description are two different strings and each differs from the failure triple's
  title and description; the default of \<open>t\<close> is the same string as the failure
  triple's \<open>t\<close>; the triple of the three defaults is not the failure triple.
\<close>

theorem voice_two_fallbacks:
  assumes "get_openai_client env = Some cl"
  shows "((\<exists>e. voice_data rt env cl voice_system (voice_prompt rt req) = Inl e) \<longrightarrow>
            api_voice rt env req
              = Inr \<lparr>world_event = event_triple failure_moment failure_title failure_desc\<rparr>)
       \<and> (voice_data rt env cl voice_system (voice_prompt rt req) = Inr (JObj d) \<longrightarrow>
            (\<exists>t title desc.
               api_voice rt env req = Inr \<lparr>world_event = event_triple t title desc\<rparr>
               \<and> (map_of d (ascii ''t'') = None \<longrightarrow> t = this_moment)
               \<and> (map_of d (ascii ''title'') = None \<longrightarrow> title = default_title)
               \<and> (map_of d (ascii ''desc'') = None \<longrightarrow> desc = default_desc)
               \<and> (\<forall>s. map_of d (ascii ''t'') = Some (JStr s) \<and> s \<noteq> [] \<longrightarrow> t = s)
               \<and> (\<forall>s. map_of d (ascii ''title'') = Some (JStr s) \<and> s \<noteq> [] \<longrightarrow> title = s)
               \<and> (\<forall>s. map_of d (ascii ''desc'') = Some (JStr s) \<and> s \<noteq> [] \<longrightarrow> desc = s)))
       \<and> this_moment = [0x6B64, 0x523B]
       \<and> this_moment = failure_moment
       \<and> default_title \<noteq> default_desc
       \<and> default_title \<noteq> failure_title
       \<and> default_desc \<noteq> failure_desc
       \<and> event_triple this_moment default_title default_desc
           \<noteq> event_triple failure_moment failure_title failure_desc"
proof (intro conjI impI)
  assume "\<exists>e. voice_data rt env cl voice_system (voice_prompt rt req) = Inl e"
  then obtain e where "voice_try rt env cl voice_system (voice_prompt rt req) = Inl e"
    by (auto dest: voice_try_data_raises)
  with assms show "api_voice rt env req
              = Inr \<lparr>world_event = event_triple failure_moment failure_title failure_desc\<rparr>"
    by (simp add: api_voice_client try_except_def)
next
  assume p: "voice_data rt env cl voice_system (voice_prompt rt req) = Inr (JObj d)"
  let ?f = "\<lambda>k dflt. py_str rt (py_or (dict_get d (ascii k)) (JStr dflt))"
  have r: "api_voice rt env req = Inr \<lparr>world_event = event_triple
             (?f ''t'' this_moment) (?f ''title'' default_title) (?f ''desc'' default_desc)\<rparr>"
    using api_voice_parsed [OF assms p] by (simp add: voice_fields_triple)
  have absent: "?f k dflt = dflt" if "map_of d (ascii k) = None" for k dflt
    using that by (simp add: dict_get_absent py_or_def py_str_def)
  have present: "?f k dflt = s" if "map_of d (ascii k) = Some (JStr s) \<and> s \<noteq> []" for k dflt s
    using that by (simp add: dict_get_def py_or_def py_str_def)
  show "\<exists>t title desc.
               api_voice rt env req = Inr \<lparr>world_event = event_triple t title desc\<rparr>
               \<and> (map_of d (ascii ''t'') = None \<longrightarrow> t = this_moment)
               \<and> (map_of d (ascii ''title'') = None \<longrightarrow> title = default_title)
               \<and> (map_of d (ascii ''desc'') = None \<longrightarrow> desc = default_desc)
               \<and> (\<forall>s. map_of d (ascii ''t'') = Some (JStr s) \<and> s \<noteq> [] \<longrightarrow> t = s)
               \<and> (\<forall>s. map_of d (ascii ''title'') = Some (JStr s) \<and> s \<noteq> [] \<longrightarrow> title = s)
               \<and> (\<forall>s. map_of d (ascii ''desc'') = Some (JStr s) \<and> s \<noteq> [] \<longrightarrow> desc = s)"
    using r absent present
    by (intro exI [of _ "?f ''t'' this_moment"] exI [of _ "?f ''title'' default_title"]
              exI [of _ "?f ''desc'' default_desc"]) blast
next
  show "this_moment = [0x6B64, 0x523B]" by (simp add: this_moment_def)
  show "this_moment = failure_moment" by (simp add: this_moment_def failure_moment_def)
  show "default_title \<noteq> default_desc" by (simp add: default_title_def default_desc_def)
  show "default_title \<noteq> failure_title" by (simp add: default_title_def failure_title_def)
  show "default_desc \<noteq> failure_desc" by (simp add: default_desc_def failure_desc_def)
  show "event_triple this_moment default_title default_desc
           \<noteq> event_triple failure_moment failure_title failure_desc"
    by (simp add: event_triple_def default_title_def failure_title_def)
qed

theorem voice_two_fallbacks_witness:
  "get_openai_client (env_with raising_client) = Some raising_client
   \<and> api_voice sample_lib (env_with raising_client) voice_request
       = Inr \<lparr>world_event = event_triple failure_moment failure_title failure_desc\<rparr>
   \<and> api_voice sample_lib (env_with null_content_client) voice_request
       = Inr \<lparr>world_event = event_triple this_moment default_title default_desc\<rparr>
   \<and> api_voice sample_lib (env_with full_event_client) voice_request
       = Inr \<lparr>world_event = event_triple (ascii ''dusk'') (ascii ''echo'') (ascii ''far'')\<rparr>"
proof -
  note failing = voice_two_fallbacks [OF get_client_env_with, of sample_lib raising_client
                   voice_request "[]"]
  note missing = voice_two_fallbacks [OF get_client_env_with, of sample_lib null_content_client
                   voice_request "[]"]
  note present = voice_two_fallbacks [OF get_client_env_with, of sample_lib full_event_client
                   voice_request "[(ascii ''t'', JStr (ascii ''dusk'')),
                     (ascii ''title'', JStr (ascii ''echo'')), (ascii ''desc'', JStr (ascii ''far''))]"]
  have "api_voice sample_lib (env_with raising_client) voice_request
       = Inr \<lparr>world_event = event_triple failure_moment failure_title failure_desc\<rparr>"
    using failing voice_data_raising by blast
  moreover have "api_voice sample_lib (env_with null_content_client) voice_request
       = Inr \<lparr>world_event = event_triple this_moment default_title default_desc\<rparr>"
    using missing by (auto simp: voice_data_null_content)
  moreover have "api_voice sample_lib (env_with full_event_client) voice_request
       = Inr \<lparr>world_event = event_triple (ascii ''dusk'') (ascii ''echo'') (ascii ''far'')\<rparr>"
    using present by (auto simp: voice_data_full_event ascii_def)
  ultimately show ?thesis
    by (simp add: get_client_env_with)
qed

text \<open>
  C9. On the provider path of /api/voice the default of a field is applied whenever
  the value read from the parsed object is falsy, not only when the key is absent: an
  absent key, \<open>null\<close>, the empty string, \<open>0\<close> and \<open>false\<close> are all falsy, so a title
  of \<open>""\<close> is replaced by the default title exactly as an absent title is.
\<close>

theorem voice_falsy_fields_defaulted:
  assumes "get_openai_client env = Some cl"
    and "voice_data rt env cl voice_system (voice_prompt rt req) = Inr (JObj d)"
  shows "(\<exists>t title desc.
            api_voice rt env req = Inr \<lparr>world_event = event_triple t title desc\<rparr>
            \<and> (\<not> truthy (dict_get d (ascii ''t'')) \<longrightarrow> t = this_moment)
            \<and> (\<not> truthy (dict_get d (ascii ''title'')) \<longrightarrow> title = default_title)
            \<and> (\<not> truthy (dict_get d (ascii ''desc'')) \<longrightarrow> desc = default_desc))
       \<and> (map_of d k = None \<or> map_of d k = Some JNull \<or> map_of d k = Some (JStr [])
           \<or> map_of d k = Some (JInt 0) \<or> map_of d k = Some (JBool False)
           \<longrightarrow> \<not> truthy (dict_get d k))"
proof (intro conjI impI)
  let ?f = "\<lambda>k dflt. py_str rt (py_or (dict_get d (ascii k)) (JStr dflt))"
  have r: "api_voice rt env req = Inr \<lparr>world_event = event_triple
             (?f ''t'' this_moment) (?f ''title'' default_title) (?f ''desc'' default_desc)\<rparr>"
    using api_voice_parsed [OF assms] by (simp add: voice_fields_triple)
  show "\<exists>t title desc.
            api_voice rt env req = Inr \<lparr>world_event = event_triple t title desc\<rparr>
            \<and> (\<not> truthy (dict_get d (ascii ''t'')) \<longrightarrow> t = this_moment)
            \<and> (\<not> truthy (dict_get d (ascii ''title'')) \<longrightarrow> title = default_title)
            \<and> (\<not> truthy (dict_get d (ascii ''desc'')) \<longrightarrow> desc = default_desc)"
    using r
    by (intro exI [of _ "?f ''t'' this_moment"] exI [of _ "?f ''title'' default_title"]
              exI [of _ "?f ''desc'' default_desc"])
       (simp add: field_default)
next
  assume "map_of d k = None \<or> map_of d k = Some JNull \<or> map_of d k = Some (JStr [])
           \<or> map_of d k = Some (JInt 0) \<or> map_of d k = Some (JBool False)"
  then show "\<not> truthy (dict_get d k)"
    by (auto simp: dict_get_def)
qed

theorem voice_falsy_fields_defaulted_witness:
  "get_openai_client (env_with empty_title_client) = Some empty_title_client
   \<and> voice_data sample_lib (env_with empty_title_client) empty_title_client voice_system
        (voice_prompt sample_lib voice_request)
       = Inr (JObj [(ascii ''title'', JStr []), (ascii ''desc'', JInt 0)])
   \<and> map_of [(ascii ''title'', JStr []), (ascii ''desc'', JInt 0)] (ascii ''title'') = Some (JStr [])
   \<and> api_voice sample_lib (env_with empty_title_client) voice_request
       = Inr \<lparr>world_event = event_triple this_moment default_title default_desc\<rparr>"
proof -
  let ?d = "[(ascii ''title'', JStr []), (ascii ''desc'', JInt 0)]"
  note th = voice_falsy_fields_defaulted [OF get_client_env_with voice_data_empty_title,
              of voice_request]
  have m: "map_of ?d (ascii ''title'') = Some (JStr [])"
    "map_of ?d (ascii ''desc'') = Some (JInt 0)" "map_of ?d (ascii ''t'') = None"
    by (simp_all add: ascii_def)
  have f1: "\<not> truthy (dict_get ?d (ascii ''title''))" using th [of "ascii ''title''"] m by blast
  have f2: "\<not> truthy (dict_get ?d (ascii ''desc''))" using th [of "ascii ''desc''"] m by blast
  have f3: "\<not> truthy (dict_get ?d (ascii ''t''))" using th [of "ascii ''t''"] m by blast
  from th [of "ascii ''t''"] obtain t title desc where
    r: "api_voice sample_lib (env_with empty_title_client) voice_request
          = Inr \<lparr>world_event = event_triple t title desc\<rparr>"
    and d: "\<not> truthy (dict_get ?d (ascii ''t'')) \<longrightarrow> t = this_moment"
       "\<not> truthy (dict_get ?d (ascii ''title'')) \<longrightarrow> title = default_title"
       "\<not> truthy (dict_get ?d (ascii ''desc'')) \<longrightarrow> desc = default_desc"
    by blast
  from d f1 f2 f3 have "t = this_moment" "title = default_title" "desc = default_desc"
    by blast+
  with r have "api_voice sample_lib (env_with empty_title_client) voice_request
       = Inr \<lparr>world_event = event_triple this_moment default_title default_desc\<rparr>"
    by simp
  then show ?thesis
    using m by (simp add: get_client_env_with voice_data_empty_title)
qed

section \<open>The suggestion endpoint on the provider path\<close>

text \<open>
  C8. When the parsed answer is an object whose \<open>suggestions\<close> value is a list, the
  try block does not raise, whatever the types of the elements: the response is the
  list of the elements' \<open>str\<close> forms, each cut to 30 characters, cut to the effective
  count. \<open>str\<close> is the identity on a string, gives \<open>None\<close>, \<open>True\<close>, \<open>False\<close> and
  the decimal digits for null, the booleans and an int, and the \<open>repr\<close> for a float,
  a list and an object.
\<close>

theorem suggestions_list_elements_coerced:
  assumes "get_openai_client env = Some cl"
    and "suggestions_data rt env cl suggestions_system (suggestions_prompt rt req) = Inr (JObj d)"
    and "map_of d (ascii ''suggestions'') = Some (JArr xs)"
  shows "suggestions_try rt env cl suggestions_system (suggestions_prompt rt req) (effective_n req)
           = Inr \<lparr>suggestions = take (nat (effective_n req)) (map (\<lambda>s. take 30 (py_str rt s)) xs)\<rparr>
       \<and> api_suggestions rt env req
           = Inr \<lparr>suggestions = take (nat (effective_n req)) (map (\<lambda>s. take 30 (py_str rt s)) xs)\<rparr>
       \<and> py_str rt (JStr s) = s
       \<and> py_str rt JNull = ascii ''None''
       \<and> py_str rt (JBool True) = ascii ''True''
       \<and> py_str rt (JBool False) = ascii ''False''
       \<and> py_str rt (JInt i) = str_int i
       \<and> py_str rt (JFloat w) = py_repr rt (JFloat w)
       \<and> py_str rt (JArr ys) = py_repr rt (JArr ys)
       \<and> py_str rt (JObj kvs) = py_repr rt (JObj kvs)"
proof -
  have n: "0 \<le> effective_n req" by (simp add: effective_n_def)
  have t: "suggestions_try rt env cl suggestions_system (suggestions_prompt rt req) (effective_n req)
           = Inr \<lparr>suggestions = take (nat (effective_n req)) (map (\<lambda>s. take 30 (py_str rt s)) xs)\<rparr>"
    using assms(2,3) n
    by (simp add: suggestions_try_def bind_exn_def as_dict_def dict_get_def slice_to_def)
  then have "api_suggestions rt env req
           = Inr \<lparr>suggestions = take (nat (effective_n req)) (map (\<lambda>s. take 30 (py_str rt s)) xs)\<rparr>"
    using assms(1) by (simp add: api_suggestions_client try_except_def)
  with t show ?thesis by (simp add: py_str_def)
qed

theorem suggestions_list_elements_coerced_witness:
  "get_openai_client (env_with mixed_client) = Some mixed_client
   \<and> map_of [(ascii ''suggestions'', JArr [JInt 1, JNull, JBool True, JStr (ascii ''go'')])]
        (ascii ''suggestions'') = Some (JArr [JInt 1, JNull, JBool True, JStr (ascii ''go'')])
   \<and> api_suggestions sample_lib (env_with mixed_client) (suggestion_request 3)
       = Inr \<lparr>suggestions = [ascii ''1'', ascii ''None'', ascii ''True'']\<rparr>"
proof -
  have m: "map_of [(ascii ''suggestions'', JArr [JInt 1, JNull, JBool True, JStr (ascii ''go'')])]
        (ascii ''suggestions'') = Some (JArr [JInt 1, JNull, JBool True, JStr (ascii ''go'')])"
    by simp
  note th = suggestions_list_elements_coerced [OF get_client_env_with suggestions_data_mixed m,
              where req = "suggestion_request 3"]
  from th have "api_suggestions sample_lib (env_with mixed_client) (suggestion_request 3)
       = Inr \<lparr>suggestions = take (nat (effective_n (suggestion_request 3)))
           (map (\<lambda>s. take 30 (py_str sample_lib s)) [JInt 1, JNull, JBool True, JStr (ascii ''go'')])\<rparr>"
    by blast
  then have "api_suggestions sample_lib (env_with mixed_client) (suggestion_request 3)
       = Inr \<lparr>suggestions = [ascii ''1'', ascii ''None'', ascii ''True'']\<rparr>"
    by (simp add: effective_n_def suggestion_request_def py_str_def str_int_def ascii_def)
  then show ?thesis
    using m by (simp add: get_client_env_with)
qed


end
